theory Spec2Isabelle
  imports Main "HOL-Library.AList"
begin

section \<open>JavaScript values\<close>

text \<open>
  The connectors pass untyped JavaScript values (\<open>IDataObject\<close>) around. A value is one
  of the JSON shapes, or \<open>undefined\<close>. An object is an association list in insertion
  order; a property is read with \<open>map_of\<close> and written with \<open>AList.update\<close>, which keeps
  the position of a key that is already there, as a JavaScript object does (JavaScript
  lists keys that look like array indices first; the connector uses none).
  Numbers are integers here: the code tests them for zero, passes them on, and cuts a
  list at a limit.
\<close>

datatype json =
    JUndefined
  | JNull
  | JBool bool
  | JNum int
  | JString string
  | JArray "json list"
  | JObject "(string \<times> json) list"

type_synonym IDataObject = "(string \<times> json) list"

text \<open>\<open>if (v)\<close>: undefined, null, false, 0 and the empty string are falsy.\<close>

fun truthy :: "json \<Rightarrow> bool" where
  "truthy JUndefined = False"
| "truthy JNull = False"
| "truthy (JBool b) = b"
| "truthy (JNum n) = (n \<noteq> 0)"
| "truthy (JString s) = (s \<noteq> [])"
| "truthy (JArray xs) = True"
| "truthy (JObject kvs) = True"

text \<open>\<open>obj.key\<close> on an object: a missing property reads as undefined.\<close>

definition get :: "IDataObject \<Rightarrow> string \<Rightarrow> json" where
  "get obj k = (case map_of obj k of None \<Rightarrow> JUndefined | Some v \<Rightarrow> v)"

section \<open>Elasticsearch: the document field table\<close>

text \<open>
  \<open>DocumentDescription.ts\<close>: \<open>documentFields\<close> is a list of \<open>INodeProperties\<close>. The model
  keeps, for each top-level entry, its name, type, default, required flag, the \<open>show\<close> map
  of its \<open>displayOptions\<close> and, for a field of type \<open>options\<close>, the values of its options.
  Labels, descriptions, placeholders and the children of collections are left out: no
  display condition reads them.
\<close>

record INodeProperties =
  name :: string
  type :: string
  default_value :: json
  required :: bool
  displayOptions_show :: "(string \<times> json list) list"
  option_values :: "json list"

definition show_for :: "string \<Rightarrow> (string \<times> json list) list" where
  "show_for opn = [(''resource'', [JString ''document'']), (''operation'', [JString opn])]"

definition documentFields :: "INodeProperties list" where
  "documentFields = [
    \<comment> \<open>document: delete\<close>
    \<lparr>name = ''indexId'', type = ''string'',
      default_value = JString '''', required = True,
      displayOptions_show = show_for ''delete'', option_values = []\<rparr>,
    \<lparr>name = ''documentId'', type = ''string'',
      default_value = JString '''', required = True,
      displayOptions_show = show_for ''delete'', option_values = []\<rparr>,
    \<comment> \<open>document: get\<close>
    \<lparr>name = ''indexId'', type = ''string'',
      default_value = JString '''', required = True,
      displayOptions_show = show_for ''get'', option_values = []\<rparr>,
    \<lparr>name = ''documentId'', type = ''string'',
      default_value = JString '''', required = True,
      displayOptions_show = show_for ''get'', option_values = []\<rparr>,
    \<lparr>name = ''simple'', type = ''boolean'',
      default_value = JBool True, required = False,
      displayOptions_show = show_for ''get'', option_values = []\<rparr>,
    \<lparr>name = ''options'', type = ''collection'',
      default_value = JObject [], required = False,
      displayOptions_show = show_for ''get'', option_values = []\<rparr>,
    \<comment> \<open>document: getAll\<close>
    \<lparr>name = ''indexId'', type = ''string'',
      default_value = JString '''', required = True,
      displayOptions_show = show_for ''getAll'', option_values = []\<rparr>,
    \<lparr>name = ''returnAll'', type = ''boolean'',
      default_value = JBool False, required = False,
      displayOptions_show = show_for ''getAll'', option_values = []\<rparr>,
    \<lparr>name = ''limit'', type = ''number'',
      default_value = JNum 50, required = False,
      displayOptions_show = show_for ''getAll'' @ [(''returnAll'', [JBool False])],
      option_values = []\<rparr>,
    \<lparr>name = ''simple'', type = ''boolean'',
      default_value = JBool True, required = False,
      displayOptions_show = show_for ''getAll'', option_values = []\<rparr>,
    \<lparr>name = ''options'', type = ''collection'',
      default_value = JObject [], required = False,
      displayOptions_show = show_for ''getAll'', option_values = []\<rparr>,
    \<comment> \<open>document: create\<close>
    \<lparr>name = ''indexId'', type = ''string'',
      default_value = JString '''', required = True,
      displayOptions_show = show_for ''create'', option_values = []\<rparr>,
    \<lparr>name = ''dataToSend'', type = ''options'',
      default_value = JString ''defineBelow'', required = False,
      displayOptions_show = show_for ''create'',
      option_values = [JString ''defineBelow'', JString ''autoMapInputData'']\<rparr>,
    \<lparr>name = ''inputsToIgnore'', type = ''string'',
      default_value = JString '''', required = False,
      displayOptions_show =
        show_for ''create'' @ [(''dataToSend'', [JString ''autoMapInputData''])],
      option_values = []\<rparr>,
    \<lparr>name = ''fieldsUi'', type = ''fixedCollection'',
      default_value = JObject [], required = False,
      displayOptions_show =
        show_for ''create'' @ [(''dataToSend'', [JString ''defineBelow''])],
      option_values = []\<rparr>,
    \<lparr>name = ''additionalFields'', type = ''collection'',
      default_value = JObject [], required = False,
      displayOptions_show = show_for ''create'', option_values = []\<rparr>,
    \<comment> \<open>document: update\<close>
    \<lparr>name = ''indexId'', type = ''string'',
      default_value = JString '''', required = True,
      displayOptions_show = show_for ''update'', option_values = []\<rparr>,
    \<lparr>name = ''documentId'', type = ''string'',
      default_value = JString '''', required = True,
      displayOptions_show = show_for ''update'', option_values = []\<rparr>,
    \<lparr>name = ''dataToSend'', type = ''options'',
      default_value = JString ''defineBelow'', required = False,
      displayOptions_show = show_for ''update'',
      option_values = [JString ''defineBelow'', JString ''autoMapInputData'']\<rparr>,
    \<lparr>name = ''inputsToIgnore'', type = ''string'',
      default_value = JString '''', required = False,
      displayOptions_show =
        show_for ''update'' @ [(''dataToSend'', [JString ''autoMapInputData''])],
      option_values = []\<rparr>,
    \<lparr>name = ''fieldsUi'', type = ''fixedCollection'',
      default_value = JObject [], required = False,
      displayOptions_show =
        show_for ''update'' @ [(''dataToSend'', [JString ''defineBelow''])],
      option_values = []\<rparr>
  ]"

text \<open>
  Modelled from the spec: the evaluation of a field's display condition belongs to the
  hosting platform and is not part of the connector's sources. The spec says that each
  field is tagged with a show/hide predicate over the other field values and that
  visibility is a pure function of the currently selected values: a field is shown when,
  for every property its \<open>show\<close> map lists, the current value of that property is one of
  the listed values.
\<close>

definition displayParameter :: "(string \<Rightarrow> json) \<Rightarrow> INodeProperties \<Rightarrow> bool" where
  "displayParameter nodeValues p =
     list_all (\<lambda>(propertyName, values). nodeValues propertyName \<in> set values)
       (displayOptions_show p)"

text \<open>The names of the fields that are shown, and so collected, under the current values.\<close>

definition visible_fields :: "(string \<Rightarrow> json) \<Rightarrow> string list" where
  "visible_fields nodeValues = map name (filter (displayParameter nodeValues) documentFields)"

text \<open>The values a field of type \<open>options\<close> offers, over all entries of that name.\<close>

definition offered_values :: "string \<Rightarrow> json list" where
  "offered_values n = concat (map option_values (filter (\<lambda>p. name p = n) documentFields))"

section \<open>JavaScript operations the issue-tracker connector uses\<close>

text \<open>
  What can go wrong in \<open>execute\<close>: the connector's own \<open>NodeOperationError\<close>, a failed
  request (\<open>NodeApiError\<close>, raised inside the request helper), a failed platform helper
  (\<open>HelperError\<close>), and the \<open>TypeError\<close> that JavaScript raises when a property of
  undefined or null is read or a method is called on a value that has none.
  \<open>Unmodelled\<close> marks the few places where the source goes on with a string-to-number
  coercion that the model does not follow.
\<close>

datatype error = NodeOperationError string | NodeApiError | HelperError | TypeError | Unmodelled

definition bindE :: "error + 'a \<Rightarrow> ('a \<Rightarrow> error + 'b) \<Rightarrow> error + 'b" where
  "bindE m f = (case m of Inl e \<Rightarrow> Inl e | Inr x \<Rightarrow> f x)"

text \<open>\<open>when c f\<close> is the statement \<open>if (c) { f }\<close> acting on the object being built.\<close>

definition "when" :: "bool \<Rightarrow> ('a \<Rightarrow> 'a) \<Rightarrow> 'a \<Rightarrow> 'a" where
  "when c f x = (if c then f x else x)"

text \<open>
  \<open>v.key\<close> on a value that is neither undefined nor null. The names the connector reads
  are data properties; strings, numbers, booleans and arrays have none of them.
\<close>

fun member :: "json \<Rightarrow> string \<Rightarrow> json" where
  "member (JObject kvs) k = get kvs k"
| "member v k = JUndefined"

definition read_prop :: "json \<Rightarrow> string \<Rightarrow> error + json" where
  "read_prop v k = (if v = JUndefined \<or> v = JNull then Inl TypeError else Inr (member v k))"

text \<open>\<open>Object.assign(target, source)\<close> for an object source.\<close>

definition Object_assign :: "IDataObject \<Rightarrow> IDataObject \<Rightarrow> IDataObject" where
  "Object_assign target source = foldl (\<lambda>obj (k, v). AList.update k v obj) target source"

text \<open>Decimal digits of a number, for template literals.\<close>

fun string_of_nat :: "nat \<Rightarrow> string" where
  "string_of_nat n =
     (if n < 10 then [''0123456789'' ! n]
      else string_of_nat (n div 10) @ [''0123456789'' ! (n mod 10)])"

declare string_of_nat.simps [simp del]

fun join_comma :: "string list \<Rightarrow> string" where
  "join_comma [] = []"
| "join_comma [s] = s"
| "join_comma (s # t # ss) = s @ '','' @ join_comma (t # ss)"

text \<open>The string a template literal \<open>`${v}`\<close> puts in for a value.\<close>

fun to_string :: "json \<Rightarrow> string" where
  "to_string JUndefined = ''undefined''"
| "to_string JNull = ''null''"
| "to_string (JBool b) = (if b then ''true'' else ''false'')"
| "to_string (JNum n) =
     (if n < 0 then ''-'' @ string_of_nat (nat (- n)) else string_of_nat (nat n))"
| "to_string (JString s) = s"
| "to_string (JArray xs) =
     join_comma (map (\<lambda>x. if x = JUndefined \<or> x = JNull then [] else to_string x) xs)"
| "to_string (JObject kvs) = ''[object Object]''"

text \<open>\<open>s.toUpperCase()\<close>; strings are ASCII here. A value that is not a string has no such method.\<close>

definition toUpperCase_char :: "char \<Rightarrow> char" where
  "toUpperCase_char c =
     (case map_of (zip ''abcdefghijklmnopqrstuvwxyz'' ''ABCDEFGHIJKLMNOPQRSTUVWXYZ'') c of
        None \<Rightarrow> c | Some u \<Rightarrow> u)"

fun toUpperCase :: "json \<Rightarrow> error + json" where
  "toUpperCase (JString s) = Inr (JString (map toUpperCase_char s))"
| "toUpperCase v = Inl TypeError"

text \<open>\<open>s.split(',')\<close>.\<close>

fun split_comma :: "string \<Rightarrow> string list" where
  "split_comma [] = [[]]"
| "split_comma (c # cs) =
     (if c = CHR '','' then [] # split_comma cs
      else (case split_comma cs of [] \<Rightarrow> [[c]] | w # ws \<Rightarrow> (c # w) # ws))"

fun split :: "json \<Rightarrow> error + json" where
  "split (JString s) = Inr (JArray (map JString (split_comma s)))"
| "split v = Inl TypeError"

text \<open>\<open>xs.map(f)\<close>: only an array has the method.\<close>

fun js_map :: "(json \<Rightarrow> json) \<Rightarrow> json \<Rightarrow> error + json" where
  "js_map f (JArray xs) = Inr (JArray (map f xs))"
| "js_map f v = Inl TypeError"

text \<open>\<open>xs.join(',')\<close>.\<close>

fun join :: "json \<Rightarrow> error + json" where
  "join (JArray xs) = Inr (JString (to_string (JArray xs)))"
| "join v = Inl TypeError"

text \<open>
  \<open>xs.includes(v)\<close> compares with SameValueZero: primitives by value, arrays and objects
  by identity, and a value read from a parameter is never the same object as one read
  from a response.
\<close>

fun same_value_zero :: "json \<Rightarrow> json \<Rightarrow> bool" where
  "same_value_zero (JArray xs) v = False"
| "same_value_zero (JObject kvs) v = False"
| "same_value_zero u v = (u = v)"

definition js_includes :: "json list \<Rightarrow> json \<Rightarrow> bool" where
  "js_includes xs v = list_ex (\<lambda>x. same_value_zero x v) xs"

text \<open>\<open>for (const x of v)\<close>: arrays and strings are iterable.\<close>

fun iterate :: "json \<Rightarrow> error + json list" where
  "iterate (JArray xs) = Inr xs"
| "iterate (JString s) = Inr (map (\<lambda>c. JString [c]) s)"
| "iterate v = Inl TypeError"

text \<open>
  \<open>v.length > 0\<close>. The length of an array or string is its size; a number or boolean has
  none (\<open>undefined > 0\<close> is false); an object has the one it stores.
\<close>

fun length_gt_0 :: "json \<Rightarrow> error + bool" where
  "length_gt_0 JUndefined = Inl TypeError"
| "length_gt_0 JNull = Inl TypeError"
| "length_gt_0 (JArray xs) = Inr (xs \<noteq> [])"
| "length_gt_0 (JString s) = Inr (s \<noteq> [])"
| "length_gt_0 (JBool b) = Inr False"
| "length_gt_0 (JNum n) = Inr False"
| "length_gt_0 (JObject kvs) =
     (case get kvs ''length'' of
        JUndefined \<Rightarrow> Inr False
      | JNull \<Rightarrow> Inr False
      | JBool b \<Rightarrow> Inr b
      | JNum n \<Rightarrow> Inr (0 < n)
      | _ \<Rightarrow> Inl Unmodelled)"

text \<open>
  \<open>xs.slice(0, limit)\<close> on a sequence: a negative end counts from the back.
\<close>

definition slice_0 :: "'a list \<Rightarrow> int \<Rightarrow> 'a list" where
  "slice_0 xs limit =
     (if limit < 0 then take (nat (int (length xs) + limit)) xs else take (nat limit) xs)"

text \<open>
  The argument list of \<open>returnData.push.apply(returnData, v)\<close>: nothing for undefined or
  null, the elements of an array, the indexed properties of an array-like object, and a
  TypeError for any other primitive.
\<close>

fun apply_arguments :: "json \<Rightarrow> error + json list" where
  "apply_arguments JUndefined = Inr []"
| "apply_arguments JNull = Inr []"
| "apply_arguments (JArray xs) = Inr xs"
| "apply_arguments (JObject kvs) =
     (case get kvs ''length'' of
        JUndefined \<Rightarrow> Inr []
      | JNull \<Rightarrow> Inr []
      | JBool b \<Rightarrow> Inr (if b then [get kvs ''0''] else [])
      | JNum n \<Rightarrow> Inr (map (\<lambda>i. get kvs (string_of_nat i)) [0..<nat n])
      | _ \<Rightarrow> Inl Unmodelled)"
| "apply_arguments v = Inl TypeError"

text \<open>
  Modelled from the spec: \<open>validateJSON\<close> lives in the connector's \<open>GenericFunctions\<close>, which
  is not among the sources. A raw-JSON parameter is represented by what \<open>JSON.parse\<close> makes
  of the supplied text: \<open>None\<close> when the text is not valid JSON, the parsed value
  otherwise. The callers test the result against the empty string to detect invalid
  input, so that is what \<open>validateJSON\<close> returns for it.
\<close>

type_synonym json_text = "json option"

definition validateJSON :: "json_text \<Rightarrow> json" where
  "validateJSON t = (case t of None \<Rightarrow> JString [] | Some v \<Rightarrow> v)"

section \<open>The issue-tracker connector: requests, parameters and state\<close>

text \<open>
  A call of the request helpers, as \<open>execute\<close> makes it: \<open>jiraSoftwareCloudApiRequest.call(this,
  endpoint, method, body, query, uri, option)\<close>, or \<open>jiraSoftwareCloudApiRequestAllItems.call(this,
  propertyName, endpoint, method, body, query)\<close> when \<open>propertyName\<close> is given. An argument
  that is left out is undefined; the \<open>method\<close> argument is the field \<open>http_method\<close>. The
  helpers themselves are in \<open>GenericFunctions\<close>, outside the sources; the model records
  each call and takes the answer from the context.
\<close>

record api_call =
  propertyName :: "string option"
  endpoint :: string
  http_method :: string
  body :: json
  query :: json
  uri :: json
  option :: json

definition request :: "string \<Rightarrow> string \<Rightarrow> json \<Rightarrow> json \<Rightarrow> api_call" where
  "request e m b q =
     \<lparr>propertyName = None, endpoint = e, http_method = m, body = b, query = q,
      uri = JUndefined, option = JUndefined\<rparr>"

definition request_all :: "string \<Rightarrow> string \<Rightarrow> string \<Rightarrow> json \<Rightarrow> json \<Rightarrow> api_call" where
  "request_all pn e m b q =
     \<lparr>propertyName = Some pn, endpoint = e, http_method = m, body = b, query = q,
      uri = JUndefined, option = JUndefined\<rparr>"

text \<open>
  The parameters of the node for one input item, typed as \<open>execute\<close> casts them:
  \<open>this.getNodeParameter('summary', i) as string\<close> is \<open>summary (getNodeParameter ctx i)\<close>.
  A collection parameter is an object whose values are arbitrary; a raw-JSON parameter
  is a \<open>json_text\<close>; the parameters read without a cast are arbitrary values.
\<close>

record parameters =
  resource :: string
  operation :: string
  jiraVersion :: string
  jsonParameters :: bool
  download :: bool
  binaryProperty :: string
  summary :: string
  project :: string
  issueType :: string
  additionalFields :: IDataObject
  issueKey :: string
  updateFields :: IDataObject
  returnAll :: bool
  limit :: int
  options :: IDataObject
  deleteSubtasks :: bool
  notificationRecipientsUi :: IDataObject
  notificationRecipientsRestrictionsUi :: IDataObject
  notificationRecipientsJson :: json_text
  notificationRecipientsRestrictionsJson :: json_text
  binaryPropertyName :: string
  attachmentId :: string
  comment :: string
  commentJson :: json_text
  commentId :: string
  username :: json
  emailAddress :: json
  displayName :: json
  accountId :: json

text \<open>An input item; \<open>execute\<close> reads only its \<open>binary\<close> property, which may be undefined.\<close>

record INodeExecutionData =
  binary :: "IDataObject option"

text \<open>
  What the hosting platform and the request helpers give to \<open>execute\<close>. A request helper
  answers a call knowing the calls issued before it in this invocation; \<open>None\<close> is a
  helper that throws. Reading a parameter is a plain lookup: what the platform checks
  when it resolves a parameter happens outside the connector.
\<close>

record IExecuteFunctions =
  getInputData :: "INodeExecutionData list"
  getNodeParameter :: "nat \<Rightarrow> parameters"
  jiraSoftwareCloudApiRequest :: "api_call list \<Rightarrow> api_call \<Rightarrow> json option"
  jiraSoftwareCloudApiRequestAllItems :: "api_call list \<Rightarrow> api_call \<Rightarrow> json option"
  getBinaryDataBuffer :: "nat \<Rightarrow> string \<Rightarrow> json option"
  prepareBinaryData :: "json \<Rightarrow> json \<Rightarrow> json \<Rightarrow> json option"

text \<open>
  The state of one invocation of \<open>execute\<close>: the calls issued so far (oldest first), the
  query-string object \<open>qs\<close> and the output list \<open>returnData\<close>, both declared once before the
  loops over the items.
\<close>

record exec_state =
  calls :: "api_call list"
  qs :: IDataObject
  returnData :: "json list"

definition initial_state :: exec_state where
  "initial_state = \<lparr>calls = [], qs = [], returnData = []\<rparr>"

type_synonym 'a exec = "exec_state \<Rightarrow> (error + 'a) \<times> exec_state"

definition return :: "'a \<Rightarrow> 'a exec" where
  "return x s = (Inr x, s)"

definition throw :: "error \<Rightarrow> 'a exec" where
  "throw e s = (Inl e, s)"

definition bindX :: "'a exec \<Rightarrow> ('a \<Rightarrow> 'b exec) \<Rightarrow> 'b exec" where
  "bindX m f s = (case m s of (Inl e, s') \<Rightarrow> (Inl e, s') | (Inr x, s') \<Rightarrow> f x s')"

definition lift :: "error + 'a \<Rightarrow> 'a exec" where
  "lift r s = (r, s)"

definition whenX :: "bool \<Rightarrow> unit exec \<Rightarrow> unit exec" where
  "whenX c m = (if c then m else return ())"

fun sequence :: "unit exec list \<Rightarrow> unit exec" where
  "sequence [] = return ()"
| "sequence (m # ms) = bindX m (\<lambda>_. sequence ms)"

text \<open>\<open>for (let i = 0; i < length; i++) { f i }\<close> is \<open>for_loop f [0..<length]\<close>.\<close>

fun for_loop :: "(nat \<Rightarrow> unit exec) \<Rightarrow> nat list \<Rightarrow> unit exec" where
  "for_loop f [] = return ()"
| "for_loop f (i # rest) = bindX (f i) (\<lambda>_. for_loop f rest)"

definition get_qs :: "IDataObject exec" where
  "get_qs s = (Inr (qs s), s)"

definition modify_qs :: "(IDataObject \<Rightarrow> IDataObject) \<Rightarrow> unit exec" where
  "modify_qs f s = (Inr (), s\<lparr>qs := f (qs s)\<rparr>)"

definition get_returnData :: "json list exec" where
  "get_returnData s = (Inr (returnData s), s)"

definition set_returnData :: "nat \<Rightarrow> json \<Rightarrow> unit exec" where
  "set_returnData index v s = (Inr (), s\<lparr>returnData := (returnData s)[index := v]\<rparr>)"

text \<open>\<open>returnData.push(x)\<close> is \<open>push [x]\<close>; \<open>returnData.push.apply(returnData, xs)\<close> is \<open>push xs\<close>.\<close>

definition push :: "json list \<Rightarrow> unit exec" where
  "push xs s = (Inr (), s\<lparr>returnData := returnData s @ xs\<rparr>)"

text \<open>
  Issuing a call: it joins the trace whether or not the helper then fails. A request
  helper that fails throws a \<open>NodeApiError\<close>.
\<close>

definition api :: "IExecuteFunctions \<Rightarrow> api_call \<Rightarrow> json exec" where
  "api ctx c s =
     ((case (case propertyName c of
               None \<Rightarrow> jiraSoftwareCloudApiRequest ctx (calls s) c
             | Some pn \<Rightarrow> jiraSoftwareCloudApiRequestAllItems ctx (calls s) c) of
         None \<Rightarrow> Inl NodeApiError
       | Some response \<Rightarrow> Inr response),
      s\<lparr>calls := calls s @ [c]\<rparr>)"

text \<open>A platform helper (binary data); its failure is a \<open>HelperError\<close>.\<close>

definition helper :: "json option \<Rightarrow> json exec" where
  "helper r s = ((case r of None \<Rightarrow> Inl HelperError | Some v \<Rightarrow> Inr v), s)"

definition success :: json where
  "success = JObject [(''success'', JBool True)]"

section \<open>The issue-tracker connector: \<open>execute\<close>, resource \<open>issue\<close>\<close>

subsection \<open>Pieces shared by create and update\<close>

text \<open>
  \<open>customFields.reduce((obj, value) => Object.assign(obj, { [`${value.fieldId}`]:
  value.fieldValue }), {})\<close>
\<close>

fun customFields_reduce :: "json list \<Rightarrow> IDataObject \<Rightarrow> error + IDataObject" where
  "customFields_reduce [] obj = Inr obj"
| "customFields_reduce (v # rest) obj =
     bindE (read_prop v ''fieldId'') (\<lambda>fieldId.
     bindE (read_prop v ''fieldValue'') (\<lambda>fieldValue.
     customFields_reduce rest (AList.update (to_string fieldId) fieldValue obj)))"

fun reduce :: "json \<Rightarrow> error + IDataObject" where
  "reduce (JArray xs) = customFields_reduce xs []"
| "reduce v = Inl TypeError"

definition add_customFields :: "IDataObject \<Rightarrow> IDataObject \<Rightarrow> error + IDataObject" where
  "add_customFields collected issue_fields =
     (if truthy (get collected ''customFieldsUi'') then
        (let customFields = member (get collected ''customFieldsUi'') ''customFieldsValues'' in
         if truthy customFields then
           bindE (reduce customFields) (\<lambda>data. Inr (Object_assign issue_fields data))
         else Inr issue_fields)
      else Inr issue_fields)"

text \<open>
  \<open>for (const issueType of issueTypes) { if (issueType.subtask) {
  subtaskIssues.push(issueType.id); } }\<close>
\<close>

fun subtask_loop :: "json list \<Rightarrow> json list \<Rightarrow> error + json list" where
  "subtask_loop [] subtaskIssues = Inr subtaskIssues"
| "subtask_loop (t # rest) subtaskIssues =
     bindE (read_prop t ''subtask'') (\<lambda>subtask.
     if truthy subtask then
       bindE (read_prop t ''id'') (\<lambda>id. subtask_loop rest (subtaskIssues @ [id]))
     else subtask_loop rest subtaskIssues)"

definition subtaskIssues_of :: "json \<Rightarrow> error + json list" where
  "subtaskIssues_of issueTypes = bindE (iterate issueTypes) (\<lambda>ts. subtask_loop ts [])"

text \<open>
  The check on the parent issue key, on \<open>additionalFields.parentIssueKey\<close> and \<open>issueTypeId\<close>
  in create, on \<open>updateFields.parentIssueKey\<close> and \<open>updateFields.issueType\<close> in update.
\<close>

definition check_parent :: "json \<Rightarrow> json list \<Rightarrow> json \<Rightarrow> IDataObject \<Rightarrow> error + IDataObject" where
  "check_parent parentIssueKey subtaskIssues issueTypeId issue_fields =
     (if \<not> truthy parentIssueKey \<and> js_includes subtaskIssues issueTypeId then
        Inl (NodeOperationError ''You must define a Parent Issue Key when Issue type is sub-task'')
      else if truthy parentIssueKey \<and> js_includes subtaskIssues issueTypeId then
        bindE (toUpperCase parentIssueKey) (\<lambda>key.
        Inr (AList.update ''parent'' (JObject [(''key'', key)]) issue_fields))
      else Inr issue_fields)"

subsection \<open>issue: create\<close>

definition add_components :: "IDataObject \<Rightarrow> IDataObject \<Rightarrow> error + IDataObject" where
  "add_components collected issue_fields =
     (if truthy (get collected ''componentIds'') then
        bindE (js_map (\<lambda>id. JObject [(''id'', id)]) (get collected ''componentIds''))
          (\<lambda>components. Inr (AList.update ''components'' components issue_fields))
      else Inr issue_fields)"

text \<open>
  The \<open>fields\<close> object of a new issue, up to the custom fields. The one statement in
  between that does not touch it, \<open>qs.updateHistory = ...\<close>, is in \<open>issue_create\<close>.
\<close>

definition issue_create_fields :: "string \<Rightarrow> parameters \<Rightarrow> error + IDataObject" where
  "issue_create_fields version p =
     (let additionalFields = additionalFields p;
          issue_fields = [(''summary'', JString (summary p)),
                    (''project'', JObject [(''id'', JString (project p))]),
                    (''issuetype'', JObject [(''id'', JString (issueType p))])];
          issue_fields = when (truthy (get additionalFields ''labels''))
                     (AList.update ''labels'' (get additionalFields ''labels'')) issue_fields;
          issue_fields = when (truthy (get additionalFields ''serverLabels''))
                     (AList.update ''labels'' (get additionalFields ''serverLabels'')) issue_fields;
          issue_fields = when (truthy (get additionalFields ''priority''))
                     (AList.update ''priority''
                        (JObject [(''id'', get additionalFields ''priority'')])) issue_fields;
          issue_fields = when (truthy (get additionalFields ''assignee''))
                     (AList.update ''assignee''
                        (if version = ''server''
                         then JObject [(''name'', get additionalFields ''assignee'')]
                         else JObject [(''id'', get additionalFields ''assignee'')])) issue_fields;
          issue_fields = when (truthy (get additionalFields ''reporter''))
                     (AList.update ''reporter''
                        (JObject [(''id'', get additionalFields ''reporter'')])) issue_fields;
          issue_fields = when (truthy (get additionalFields ''description''))
                     (AList.update ''description'' (get additionalFields ''description''))
                     issue_fields
      in
      bindE (add_components additionalFields issue_fields) (\<lambda>issue_fields.
      add_customFields additionalFields issue_fields))"

definition issue_create :: "IExecuteFunctions \<Rightarrow> string \<Rightarrow> nat \<Rightarrow> unit exec" where
  "issue_create ctx version i =
     (let p = getNodeParameter ctx i;
          additionalFields = additionalFields p
      in
      bindX (modify_qs (when (truthy (get additionalFields ''updateHistory''))
               (AList.update ''updateHistory'' (get additionalFields ''updateHistory'')))) (\<lambda>_.
      bindX (lift (issue_create_fields version p)) (\<lambda>issue_fields.
      bindX get_qs (\<lambda>qs.
      bindX (api ctx (request ''/api/2/issuetype'' ''GET'' (JObject []) (JObject qs)))
        (\<lambda>issueTypes.
      bindX (lift (subtaskIssues_of issueTypes)) (\<lambda>subtaskIssues.
      bindX (lift (check_parent (get additionalFields ''parentIssueKey'') subtaskIssues
               (JString (issueType p)) issue_fields)) (\<lambda>issue_fields.
      bindX (api ctx (request ''/api/2/issue'' ''POST''
               (JObject [(''fields'', JObject issue_fields)]) JUndefined)) (\<lambda>responseData.
      push [responseData]))))))))"

subsection \<open>issue: update\<close>

definition issue_update_fields :: "string \<Rightarrow> IDataObject \<Rightarrow> error + IDataObject" where
  "issue_update_fields version collected =
     (let issue_fields = [];
          issue_fields = when (truthy (get collected ''summary''))
                     (AList.update ''summary'' (get collected ''summary'')) issue_fields;
          issue_fields = when (truthy (get collected ''issueType''))
                     (AList.update ''issuetype''
                        (JObject [(''id'', get collected ''issueType'')])) issue_fields;
          issue_fields = when (truthy (get collected ''labels''))
                     (AList.update ''labels'' (get collected ''labels'')) issue_fields;
          issue_fields = when (truthy (get collected ''serverLabels''))
                     (AList.update ''labels'' (get collected ''serverLabels'')) issue_fields;
          issue_fields = when (truthy (get collected ''priority''))
                     (AList.update ''priority''
                        (JObject [(''id'', get collected ''priority'')])) issue_fields;
          issue_fields = when (truthy (get collected ''assignee''))
                     (AList.update ''assignee''
                        (if version = ''server''
                         then JObject [(''name'', get collected ''assignee'')]
                         else JObject [(''id'', get collected ''assignee'')])) issue_fields;
          issue_fields = when (truthy (get collected ''reporter''))
                     (AList.update ''reporter''
                        (JObject [(''id'', get collected ''reporter'')])) issue_fields;
          issue_fields = when (truthy (get collected ''description''))
                     (AList.update ''description'' (get collected ''description''))
                     issue_fields
      in add_customFields collected issue_fields)"

definition issue_update :: "IExecuteFunctions \<Rightarrow> string \<Rightarrow> nat \<Rightarrow> unit exec" where
  "issue_update ctx version i =
     (let p = getNodeParameter ctx i;
          issueKey = issueKey p;
          updateFields = updateFields p
      in
      bindX (lift (issue_update_fields version updateFields)) (\<lambda>issue_fields.
      bindX (api ctx (request ''/api/2/issuetype'' ''GET'' (JObject []) JUndefined))
        (\<lambda>issueTypes.
      bindX (lift (subtaskIssues_of issueTypes)) (\<lambda>subtaskIssues.
      bindX (lift (check_parent (get updateFields ''parentIssueKey'') subtaskIssues
               (get updateFields ''issueType'') issue_fields)) (\<lambda>issue_fields.
      bindX (if truthy (get updateFields ''statusId'') then
               bindX (api ctx (request (''/api/2/issue/'' @ issueKey @ ''/transitions'') ''POST''
                        (JObject [(''transition'',
                           JObject [(''id'', get updateFields ''statusId'')])]) JUndefined))
                 (\<lambda>responseData. return ())
             else return ()) (\<lambda>_.
      bindX (api ctx (request (''/api/2/issue/'' @ issueKey) ''PUT''
               (JObject [(''fields'', JObject issue_fields)]) JUndefined)) (\<lambda>responseData.
      push [success])))))))"

subsection \<open>issue: get\<close>

definition issue_get :: "IExecuteFunctions \<Rightarrow> nat \<Rightarrow> unit exec" where
  "issue_get ctx i =
     (let p = getNodeParameter ctx i;
          issueKey = issueKey p;
          additionalFields = additionalFields p
      in
      bindX (modify_qs (when (truthy (get additionalFields ''fields''))
               (AList.update ''fields'' (get additionalFields ''fields'')))) (\<lambda>_.
      bindX (modify_qs (when (truthy (get additionalFields ''fieldsByKey''))
               (AList.update ''fieldsByKey'' (get additionalFields ''fieldsByKey'')))) (\<lambda>_.
      bindX (modify_qs (when (truthy (get additionalFields ''expand''))
               (AList.update ''expand'' (get additionalFields ''expand'')))) (\<lambda>_.
      bindX (modify_qs (when (truthy (get additionalFields ''properties''))
               (AList.update ''properties'' (get additionalFields ''properties'')))) (\<lambda>_.
      bindX (modify_qs (when (truthy (get additionalFields ''updateHistory''))
               (AList.update ''updateHistory'' (get additionalFields ''updateHistory'')))) (\<lambda>_.
      bindX get_qs (\<lambda>qs.
      bindX (api ctx (request (''/api/2/issue/'' @ issueKey) ''GET'' (JObject []) (JObject qs)))
        (\<lambda>responseData.
      push [responseData]))))))))"

subsection \<open>issue: getAll\<close>

definition issue_getAll_body :: "IDataObject \<Rightarrow> error + IDataObject" where
  "issue_getAll_body collected =
     bindE (if truthy (get collected ''fields'') then
              bindE (split (get collected ''fields'')) (\<lambda>fs. Inr (AList.update ''fields'' fs []))
            else Inr []) (\<lambda>body.
     (let body = when (truthy (get collected ''jql''))
                   (AList.update ''jql'' (get collected ''jql'')) body in
      if truthy (get collected ''expand'') then
        (case get collected ''expand'' of
           JString s \<Rightarrow> bindE (split (JString s)) (\<lambda>ex. Inr (AList.update ''expand'' ex body))
         | v \<Rightarrow> Inr (AList.update ''expand'' v body))
      else Inr body))"

definition issue_getAll :: "IExecuteFunctions \<Rightarrow> nat \<Rightarrow> unit exec" where
  "issue_getAll ctx i =
     (let p = getNodeParameter ctx i;
          returnAll = returnAll p;
          options = options p
      in
      bindX (lift (issue_getAll_body options)) (\<lambda>body.
      bindX (if returnAll then
               api ctx (request_all ''issues'' ''/api/2/search'' ''POST'' (JObject body) JUndefined)
             else
               (let limit = limit p;
                    body = AList.update ''maxResults'' (JNum limit) body in
                bindX (api ctx (request ''/api/2/search'' ''POST'' (JObject body) JUndefined))
                  (\<lambda>responseData. lift (read_prop responseData ''issues'')))) (\<lambda>responseData.
      bindX (lift (apply_arguments responseData)) (\<lambda>args.
      push args))))"

subsection \<open>issue: changelog\<close>

definition issue_changelog :: "IExecuteFunctions \<Rightarrow> nat \<Rightarrow> unit exec" where
  "issue_changelog ctx i =
     (let p = getNodeParameter ctx i;
          issueKey = issueKey p;
          returnAll = returnAll p
      in
      bindX (if returnAll then
               api ctx (request_all ''values'' (''/api/2/issue/'' @ issueKey @ ''/changelog'') ''GET''
                          JUndefined JUndefined)
             else
               bindX (modify_qs (AList.update ''maxResults'' (JNum (limit p)))) (\<lambda>_.
               bindX get_qs (\<lambda>qs.
               bindX (api ctx (request (''/api/2/issue/'' @ issueKey @ ''/changelog'') ''GET''
                        (JObject []) (JObject qs))) (\<lambda>responseData.
               lift (read_prop responseData ''values''))))) (\<lambda>responseData.
      bindX (lift (apply_arguments responseData)) (\<lambda>args.
      push args)))"

subsection \<open>issue: notify\<close>

text \<open>
  The recipients object built from \<open>notificationRecipientsValues\<close> when raw-JSON mode is off.
\<close>

definition notificationRecipients_of :: "json \<Rightarrow> error + IDataObject" where
  "notificationRecipients_of v =
     (if truthy v then
        (let r = [];
             r = when (truthy (member v ''reporter''))
                   (AList.update ''reporter'' (member v ''reporter'')) r;
             r = when (truthy (member v ''assignee''))
                   (AList.update ''assignee'' (member v ''assignee'')) r;
             r = when (truthy (member v ''assignee''))
                   (AList.update ''watchers'' (member v ''watchers'')) r;
             r = when (truthy (member v ''voters''))
                   (AList.update ''watchers'' (member v ''voters'')) r
         in
         bindE (length_gt_0 (member v ''users'')) (\<lambda>has_users.
         bindE (if has_users then
                  bindE (js_map (\<lambda>user. JObject [(''accountId'', user)]) (member v ''users''))
                    (\<lambda>users. Inr (AList.update ''users'' users r))
                else Inr r) (\<lambda>r.
         bindE (length_gt_0 (member v ''groups'')) (\<lambda>has_groups.
         if has_groups then
           bindE (js_map (\<lambda>group. JObject [(''name'', group)]) (member v ''groups''))
             (\<lambda>groups. Inr (AList.update ''groups'' groups r))
         else Inr r))))
      else Inr [])"

definition notificationRecipientsRestrictions_of :: "json \<Rightarrow> error + IDataObject" where
  "notificationRecipientsRestrictions_of v =
     (if truthy v then
        bindE (length_gt_0 (member v ''groups'')) (\<lambda>has_groups.
        if has_groups then
          bindE (js_map (\<lambda>group. JObject [(''name'', group)]) (member v ''groups''))
            (\<lambda>groups. Inr (AList.update ''groups'' groups []))
        else Inr [])
      else Inr [])"

definition issue_notify_body :: "bool \<Rightarrow> parameters \<Rightarrow> error + IDataObject" where
  "issue_notify_body jsonActive p =
     (let additionalFields = additionalFields p;
          body = [];
          body = when (truthy (get additionalFields ''textBody''))
                   (AList.update ''textBody'' (get additionalFields ''textBody'')) body;
          body = when (truthy (get additionalFields ''htmlBody''))
                   (AList.update ''htmlBody'' (get additionalFields ''htmlBody'')) body
      in
      if \<not> jsonActive then
        bindE (notificationRecipients_of
                 (get (notificationRecipientsUi p) ''notificationRecipientsValues''))
          (\<lambda>notificationRecipients.
        (let body = AList.update ''to'' (JObject notificationRecipients) body in
         bindE (notificationRecipientsRestrictions_of
                  (get (notificationRecipientsRestrictionsUi p)
                     ''notificationRecipientsRestrictionsValues''))
           (\<lambda>notificationRecipientsRestrictions.
         Inr (AList.update ''restrict'' (JObject notificationRecipientsRestrictions) body))))
      else
        (let notificationRecipientsJson = validateJSON (notificationRecipientsJson p);
             body = when (truthy notificationRecipientsJson)
                      (AList.update ''to'' notificationRecipientsJson) body;
             notificationRecipientsRestrictionsJson =
               validateJSON (notificationRecipientsRestrictionsJson p);
             body = when (truthy notificationRecipientsRestrictionsJson)
                      (AList.update ''restrict'' notificationRecipientsRestrictionsJson) body
         in Inr body))"

definition issue_notify :: "IExecuteFunctions \<Rightarrow> nat \<Rightarrow> unit exec" where
  "issue_notify ctx i =
     (let p = getNodeParameter ctx i;
          issueKey = issueKey p;
          jsonActive = jsonParameters (getNodeParameter ctx 0)
      in
      bindX (lift (issue_notify_body jsonActive p)) (\<lambda>body.
      bindX get_qs (\<lambda>qs.
      bindX (api ctx (request (''/api/2/issue/'' @ issueKey @ ''/notify'') ''POST''
               (JObject body) (JObject qs))) (\<lambda>responseData.
      push [responseData]))))"

subsection \<open>issue: transitions and delete\<close>

definition issue_transitions :: "IExecuteFunctions \<Rightarrow> nat \<Rightarrow> unit exec" where
  "issue_transitions ctx i =
     (let p = getNodeParameter ctx i;
          issueKey = issueKey p;
          additionalFields = additionalFields p
      in
      bindX (modify_qs (when (truthy (get additionalFields ''transitionId''))
               (AList.update ''transitionId'' (get additionalFields ''transitionId'')))) (\<lambda>_.
      bindX (modify_qs (when (truthy (get additionalFields ''expand''))
               (AList.update ''expand'' (get additionalFields ''expand'')))) (\<lambda>_.
      bindX (modify_qs (when (truthy (get additionalFields ''skipRemoteOnlyCondition''))
               (AList.update ''skipRemoteOnlyCondition''
                  (get additionalFields ''skipRemoteOnlyCondition'')))) (\<lambda>_.
      bindX get_qs (\<lambda>qs.
      bindX (api ctx (request (''/api/2/issue/'' @ issueKey @ ''/transitions'') ''GET''
               (JObject []) (JObject qs))) (\<lambda>responseData.
      bindX (lift (read_prop responseData ''transitions'')) (\<lambda>responseData.
      bindX (lift (apply_arguments responseData)) (\<lambda>args.
      push args))))))))"

definition issue_delete :: "IExecuteFunctions \<Rightarrow> nat \<Rightarrow> unit exec" where
  "issue_delete ctx i =
     (let p = getNodeParameter ctx i;
          issueKey = issueKey p
      in
      bindX (modify_qs (AList.update ''deleteSubtasks'' (JBool (deleteSubtasks p)))) (\<lambda>_.
      bindX get_qs (\<lambda>qs.
      bindX (api ctx (request (''/api/2/issue/'' @ issueKey) ''DELETE'' (JObject []) (JObject qs)))
        (\<lambda>responseData.
      push [success]))))"

section \<open>The issue-tracker connector: \<open>execute\<close>, resource \<open>issueAttachment\<close>\<close>

definition apiVersion_of :: "string \<Rightarrow> string" where
  "apiVersion_of version = (if version = ''server'' then ''2'' else ''3'')"

definition issueAttachment_add :: "IExecuteFunctions \<Rightarrow> string \<Rightarrow> nat \<Rightarrow> unit exec" where
  "issueAttachment_add ctx apiVersion i =
     (let p = getNodeParameter ctx i;
          binaryPropertyName = binaryPropertyName p;
          issueKey = issueKey p
      in
      case binary (getInputData ctx ! i) of
        None \<Rightarrow> throw (NodeOperationError ''No binary data exists on item!'')
      | Some item \<Rightarrow>
          (let binaryData = get item binaryPropertyName in
           bindX (helper (getBinaryDataBuffer ctx i binaryPropertyName)) (\<lambda>binaryDataBuffer.
           if binaryData = JUndefined then
             throw (NodeOperationError (''No binary data property \"'' @ binaryPropertyName
                      @ ''\" does not exists on item!''))
           else
             bindX (lift (read_prop binaryData ''fileName'')) (\<lambda>fileName.
             bindX (api ctx
                      \<lparr>propertyName = None,
                       endpoint = ''/api/'' @ apiVersion @ ''/issue/'' @ issueKey @ ''/attachments'',
                       http_method = ''POST'', body = JObject [], query = JObject [],
                       uri = JUndefined,
                       option = JObject [(''formData'', JObject [(''file'',
                         JObject [(''value'', binaryDataBuffer),
                                  (''options'', JObject [(''filename'', fileName)])])])]\<rparr>)
               (\<lambda>responseData.
             bindX (lift (apply_arguments responseData)) (\<lambda>args.
             push args))))))"

definition issueAttachment_remove :: "IExecuteFunctions \<Rightarrow> string \<Rightarrow> nat \<Rightarrow> unit exec" where
  "issueAttachment_remove ctx apiVersion i =
     (let attachmentId = attachmentId (getNodeParameter ctx i) in
      bindX get_qs (\<lambda>qs.
      bindX (api ctx (request (''/api/'' @ apiVersion @ ''/attachment/'' @ attachmentId) ''DELETE''
               (JObject []) (JObject qs))) (\<lambda>responseData.
      push [success])))"

definition issueAttachment_get :: "IExecuteFunctions \<Rightarrow> string \<Rightarrow> nat \<Rightarrow> unit exec" where
  "issueAttachment_get ctx apiVersion i =
     (let attachmentId = attachmentId (getNodeParameter ctx i) in
      bindX get_qs (\<lambda>qs.
      bindX (api ctx (request (''/api/'' @ apiVersion @ ''/attachment/'' @ attachmentId) ''GET''
               (JObject []) (JObject qs))) (\<lambda>responseData.
      push [JObject [(''json'', responseData)]])))"

text \<open>
  One round of the download loop, \<open>for (const [index, attachment] of returnData.entries())\<close>:
  the entry gets an empty \<open>binary\<close> object, the content is fetched from the address in
  \<open>attachment.json.content\<close>, and the prepared data is stored under the chosen name.
\<close>

fun set_member :: "json \<Rightarrow> string \<Rightarrow> json \<Rightarrow> error + json" where
  "set_member (JObject kvs) k v = Inr (JObject (AList.update k v kvs))"
| "set_member obj k v = Inl TypeError"

definition download_attachment :: "IExecuteFunctions \<Rightarrow> string \<Rightarrow> nat \<Rightarrow> unit exec" where
  "download_attachment ctx property_name index =
     bindX get_returnData (\<lambda>entries.
     (let attachment = entries ! index in
      bindX (lift (set_member attachment ''binary'' (JObject []))) (\<lambda>attachment.
      bindX (set_returnData index attachment) (\<lambda>_.
      bindX (lift (read_prop (member attachment ''json'') ''content'')) (\<lambda>content.
      bindX (api ctx
               \<lparr>propertyName = None, endpoint = [], http_method = ''GET'', body = JObject [],
                query = JObject [], uri = content,
                option = JObject [(''json'', JBool False), (''encoding'', JNull)]\<rparr>) (\<lambda>buffer.
      bindX (lift (read_prop (member attachment ''json'') ''filename'')) (\<lambda>filename.
      bindX (lift (read_prop (member attachment ''json'') ''mimeType'')) (\<lambda>mimeType.
      bindX (helper (prepareBinaryData ctx buffer filename mimeType)) (\<lambda>prepared.
      bindX (lift (set_member attachment ''binary''
               (JObject [(property_name, prepared)]))) (\<lambda>attachment.
      set_returnData index attachment))))))))))"

definition download_all :: "IExecuteFunctions \<Rightarrow> unit exec" where
  "download_all ctx =
     (let binaryPropertyName = binaryProperty (getNodeParameter ctx 0) in
      bindX get_returnData (\<lambda>entries.
      for_loop (download_attachment ctx binaryPropertyName) [0..<length entries]))"

text \<open>\<open>xs.slice(0, limit)\<close> on a value: arrays and strings have the method.\<close>

definition slice :: "json \<Rightarrow> int \<Rightarrow> error + json" where
  "slice v n =
     (case v of
        JArray xs \<Rightarrow> Inr (JArray (slice_0 xs n))
      | JString s \<Rightarrow> Inr (JString (slice_0 s n))
      | _ \<Rightarrow> Inl TypeError)"

definition issueAttachment_getAll :: "IExecuteFunctions \<Rightarrow> nat \<Rightarrow> unit exec" where
  "issueAttachment_getAll ctx i =
     (let p = getNodeParameter ctx i;
          issueKey = issueKey p;
          returnAll = returnAll p
      in
      bindX get_qs (\<lambda>qs.
      bindX (api ctx (request (''/api/2/issue/'' @ issueKey) ''GET'' (JObject []) (JObject qs)))
        (\<lambda>response.
      bindX (lift (read_prop response ''fields'')) (\<lambda>response_fields.
      bindX (lift (read_prop response_fields ''attachment'')) (\<lambda>attachment.
      bindX (if returnAll = False then lift (slice attachment (limit p))
             else return attachment) (\<lambda>responseData.
      bindX (lift (js_map (\<lambda>data. JObject [(''json'', data)]) responseData)) (\<lambda>responseData.
      bindX (lift (apply_arguments responseData)) (\<lambda>args.
      push args))))))))"

section \<open>The issue-tracker connector: \<open>execute\<close>, resource \<open>issueComment\<close>\<close>

text \<open>The comment body for a plain-text comment.\<close>

definition comment_body :: "string \<Rightarrow> string \<Rightarrow> json" where
  "comment_body version c =
     (if version = ''server'' then JString c
      else JObject [(''type'', JString ''doc''), (''version'', JNum 1),
             (''content'', JArray [JObject [(''type'', JString ''paragraph''),
                (''content'', JArray [JObject [(''type'', JString ''text''),
                                              (''text'', JString c)]])]])])"

definition issueComment_add :: "IExecuteFunctions \<Rightarrow> string \<Rightarrow> nat \<Rightarrow> unit exec" where
  "issueComment_add ctx version i =
     (let apiVersion = apiVersion_of version;
          jsonParameters = jsonParameters (getNodeParameter ctx 0);
          p = getNodeParameter ctx i;
          issueKey = issueKey p;
          options = options p
      in
      bindX (modify_qs (when (truthy (get options ''expand''))
               (AList.update ''expand'' (get options ''expand'')))) (\<lambda>_.
      (let options = when (truthy (get options ''expand'')) (AList.delete ''expand'') options;
           body = Object_assign [] options
       in
       bindX (if jsonParameters = False then
                return (Object_assign body [(''body'', comment_body version (comment p))])
              else
                (let json = validateJSON (commentJson p) in
                 if json = JString [] then
                   throw (NodeOperationError ''Document Format must be a valid JSON'')
                 else return (Object_assign body [(''body'', json)]))) (\<lambda>body.
       bindX get_qs (\<lambda>qs.
       bindX (api ctx (request (''/api/'' @ apiVersion @ ''/issue/'' @ issueKey @ ''/comment'')
                ''POST'' (JObject body) (JObject qs))) (\<lambda>responseData.
       push [responseData]))))))"

definition issueComment_get :: "IExecuteFunctions \<Rightarrow> string \<Rightarrow> nat \<Rightarrow> unit exec" where
  "issueComment_get ctx version i =
     (let apiVersion = apiVersion_of version;
          p = getNodeParameter ctx i;
          issueKey = issueKey p;
          commentId = commentId p;
          options = options p
      in
      bindX (modify_qs (\<lambda>qs. Object_assign qs options)) (\<lambda>_.
      bindX get_qs (\<lambda>qs.
      bindX (api ctx (request
               (''/api/'' @ apiVersion @ ''/issue/'' @ issueKey @ ''/comment/'' @ commentId)
               ''GET'' (JObject []) (JObject qs))) (\<lambda>responseData.
      push [responseData]))))"

definition issueComment_getAll :: "IExecuteFunctions \<Rightarrow> string \<Rightarrow> nat \<Rightarrow> unit exec" where
  "issueComment_getAll ctx version i =
     (let apiVersion = apiVersion_of version;
          p = getNodeParameter ctx i;
          issueKey = issueKey p;
          returnAll = returnAll p;
          options = options p
      in
      bindX (modify_qs (\<lambda>qs. Object_assign qs options)) (\<lambda>_.
      bindX get_qs (\<lambda>qs.
      bindX (if returnAll then
               api ctx (request_all ''comments''
                          (''/api/'' @ apiVersion @ ''/issue/'' @ issueKey @ ''/comment'') ''GET''
                          (JObject []) (JObject qs))
             else
               bindX (api ctx (request
                        (''/api/'' @ apiVersion @ ''/issue/'' @ issueKey @ ''/comment'') ''GET''
                        (JObject [(''maxResults'', JNum (limit p))]) (JObject qs)))
                 (\<lambda>responseData. lift (read_prop responseData ''comments''))) (\<lambda>responseData.
      bindX (lift (apply_arguments responseData)) (\<lambda>args.
      push args)))))"

definition issueComment_remove :: "IExecuteFunctions \<Rightarrow> string \<Rightarrow> nat \<Rightarrow> unit exec" where
  "issueComment_remove ctx version i =
     (let apiVersion = apiVersion_of version;
          p = getNodeParameter ctx i;
          issueKey = issueKey p;
          commentId = commentId p
      in
      bindX get_qs (\<lambda>qs.
      bindX (api ctx (request
               (''/api/'' @ apiVersion @ ''/issue/'' @ issueKey @ ''/comment/'' @ commentId)
               ''DELETE'' (JObject []) (JObject qs))) (\<lambda>responseData.
      push [success])))"

definition issueComment_update :: "IExecuteFunctions \<Rightarrow> string \<Rightarrow> nat \<Rightarrow> unit exec" where
  "issueComment_update ctx version i =
     (let apiVersion = apiVersion_of version;
          p = getNodeParameter ctx i;
          issueKey = issueKey p;
          commentId = commentId p;
          options = options p;
          jsonParameters = jsonParameters (getNodeParameter ctx 0);
          body = []
      in
      bindX (modify_qs (when (truthy (get options ''expand''))
               (AList.update ''expand'' (get options ''expand'')))) (\<lambda>_.
      (let options = when (truthy (get options ''expand'')) (AList.delete ''expand'') options in
       bindX (modify_qs (\<lambda>qs. Object_assign qs options)) (\<lambda>_.
       bindX (if jsonParameters = False then
                return (Object_assign body [(''body'', comment_body version (comment p))])
              else
                (let json = validateJSON (commentJson p) in
                 if json = JString [] then
                   throw (NodeOperationError ''Document Format must be a valid JSON'')
                 else return (Object_assign body [(''body'', json)]))) (\<lambda>body.
       bindX get_qs (\<lambda>qs.
       bindX (api ctx (request
                (''/api/'' @ apiVersion @ ''/issue/'' @ issueKey @ ''/comment/'' @ commentId)
                ''PUT'' (JObject body) (JObject qs))) (\<lambda>responseData.
       push [responseData])))))))"

section \<open>The issue-tracker connector: \<open>execute\<close>, resource \<open>user\<close>\<close>

definition user_create :: "IExecuteFunctions \<Rightarrow> string \<Rightarrow> nat \<Rightarrow> unit exec" where
  "user_create ctx version i =
     (let apiVersion = apiVersion_of version;
          p = getNodeParameter ctx i;
          body = [(''name'', username p), (''emailAddress'', emailAddress p),
                  (''displayName'', displayName p)];
          body = Object_assign body (additionalFields p)
      in
      bindX (api ctx (request (''/api/'' @ apiVersion @ ''/user'') ''POST''
               (JObject body) (JObject []))) (\<lambda>responseData.
      push [responseData]))"

definition user_delete :: "IExecuteFunctions \<Rightarrow> string \<Rightarrow> nat \<Rightarrow> unit exec" where
  "user_delete ctx version i =
     (let apiVersion = apiVersion_of version;
          p = getNodeParameter ctx i
      in
      bindX (modify_qs (AList.update ''accountId'' (accountId p))) (\<lambda>_.
      bindX get_qs (\<lambda>qs.
      bindX (api ctx (request (''/api/'' @ apiVersion @ ''/user'') ''DELETE''
               (JObject []) (JObject qs))) (\<lambda>responseData.
      push [success]))))"

definition user_get :: "IExecuteFunctions \<Rightarrow> string \<Rightarrow> nat \<Rightarrow> unit exec" where
  "user_get ctx version i =
     (let apiVersion = apiVersion_of version;
          p = getNodeParameter ctx i;
          expand = get (additionalFields p) ''expand''
      in
      bindX (modify_qs (AList.update ''accountId'' (accountId p))) (\<lambda>_.
      bindX (if truthy expand then
               bindX (lift (join expand)) (\<lambda>joined. modify_qs (AList.update ''expand'' joined))
             else return ()) (\<lambda>_.
      bindX get_qs (\<lambda>qs.
      bindX (api ctx (request (''/api/'' @ apiVersion @ ''/user'') ''GET''
               (JObject []) (JObject qs))) (\<lambda>responseData.
      push [responseData])))))"

section \<open>The issue-tracker connector: \<open>execute\<close>\<close>

text \<open>
  The body of \<open>execute\<close>: resource, operation and Jira version are read for item 0, and the
  loop of the selected operation runs over all items. An error leaves the loop and
  \<open>execute\<close>; nothing catches it.
\<close>

definition execute_body :: "IExecuteFunctions \<Rightarrow> unit exec" where
  "execute_body ctx =
     (let items = getInputData ctx;
          all_items = [0..<length items];
          resource = resource (getNodeParameter ctx 0);
          operation = operation (getNodeParameter ctx 0);
          version = jiraVersion (getNodeParameter ctx 0)
      in
      sequence [
        whenX (resource = ''issue'') (sequence [
          whenX (operation = ''create'') (for_loop (issue_create ctx version) all_items),
          whenX (operation = ''update'') (for_loop (issue_update ctx version) all_items),
          whenX (operation = ''get'') (for_loop (issue_get ctx) all_items),
          whenX (operation = ''getAll'') (for_loop (issue_getAll ctx) all_items),
          whenX (operation = ''changelog'') (for_loop (issue_changelog ctx) all_items),
          whenX (operation = ''notify'') (for_loop (issue_notify ctx) all_items),
          whenX (operation = ''transitions'') (for_loop (issue_transitions ctx) all_items),
          whenX (operation = ''delete'') (for_loop (issue_delete ctx) all_items)]),
        whenX (resource = ''issueAttachment'') (sequence [
          whenX (operation = ''add'')
            (for_loop (issueAttachment_add ctx (apiVersion_of version)) all_items),
          whenX (operation = ''remove'')
            (for_loop (issueAttachment_remove ctx (apiVersion_of version)) all_items),
          whenX (operation = ''get'') (sequence [
            for_loop (issueAttachment_get ctx (apiVersion_of version)) all_items,
            whenX (download (getNodeParameter ctx 0)) (download_all ctx)]),
          whenX (operation = ''getAll'') (sequence [
            for_loop (issueAttachment_getAll ctx) all_items,
            whenX (download (getNodeParameter ctx 0)) (download_all ctx)])]),
        whenX (resource = ''issueComment'') (sequence [
          whenX (operation = ''add'') (for_loop (issueComment_add ctx version) all_items),
          whenX (operation = ''get'') (for_loop (issueComment_get ctx version) all_items),
          whenX (operation = ''getAll'') (for_loop (issueComment_getAll ctx version) all_items),
          whenX (operation = ''remove'') (for_loop (issueComment_remove ctx version) all_items),
          whenX (operation = ''update'') (for_loop (issueComment_update ctx version) all_items)]),
        whenX (resource = ''user'')
          (if operation = ''create'' then for_loop (user_create ctx version) all_items
           else if operation = ''delete'' then for_loop (user_delete ctx version) all_items
           else if operation = ''get'' then for_loop (user_get ctx version) all_items
           else return ())])"

text \<open>
  \<open>execute\<close> gives the output list, or the error that ended it, together with the calls it
  issued. The final wrapping of the list by the platform's helpers is left out.
\<close>

definition execute :: "IExecuteFunctions \<Rightarrow> (error + json list) \<times> api_call list" where
  "execute ctx =
     (case execute_body ctx initial_state of
        (Inl e, s) \<Rightarrow> (Inl e, calls s)
      | (Inr u, s) \<Rightarrow> (Inr (returnData s), calls s))"

section \<open>Sample inputs\<close>

text \<open>Current values of the Elasticsearch node with a given operation and data mode.\<close>

definition document_values :: "string \<Rightarrow> string \<Rightarrow> string \<Rightarrow> json" where
  "document_values opn mode k =
     (if k = ''resource'' then JString ''document''
      else if k = ''operation'' then JString opn
      else if k = ''dataToSend'' then JString mode
      else JUndefined)"

text \<open>
  Parameters with nothing filled in, and an invocation over a list of per-item parameters
  whose request helpers answer by a fixed function of the call.
\<close>

definition no_parameters :: parameters where
  "no_parameters =
     \<lparr>resource = [], operation = [], jiraVersion = ''cloud'', jsonParameters = False,
      download = False, binaryProperty = [], summary = [], project = [], issueType = [],
      additionalFields = [], issueKey = [], updateFields = [], returnAll = False, limit = 50,
      options = [], deleteSubtasks = False, notificationRecipientsUi = [],
      notificationRecipientsRestrictionsUi = [], notificationRecipientsJson = None,
      notificationRecipientsRestrictionsJson = None, binaryPropertyName = [],
      attachmentId = [], comment = [], commentJson = None, commentId = [],
      username = JUndefined, emailAddress = JUndefined, displayName = JUndefined,
      accountId = JUndefined\<rparr>"

definition invocation :: "parameters list \<Rightarrow> (api_call \<Rightarrow> json option) \<Rightarrow> IExecuteFunctions" where
  "invocation ps answer =
     \<lparr>getInputData = map (\<lambda>p. \<lparr>binary = None\<rparr>) ps,
      getNodeParameter = (\<lambda>i. if i < length ps then ps ! i else no_parameters),
      jiraSoftwareCloudApiRequest = (\<lambda>issued c. answer c),
      jiraSoftwareCloudApiRequestAllItems = (\<lambda>issued c. answer c),
      getBinaryDataBuffer = (\<lambda>i n. None),
      prepareBinaryData = (\<lambda>buffer filename mimeType. None)\<rparr>"


text \<open>A plain-text comment on issue PROJ-1, and the same item in raw-JSON mode.\<close>

definition plain_comment :: parameters where
  "plain_comment =
     no_parameters\<lparr>resource := ''issueComment'', operation := ''add'',
       issueKey := ''PROJ-1'', commentId := ''7'', comment := ''hello''\<rparr>"

definition accept :: "api_call \<Rightarrow> json option" where
  "accept c = Some (JObject [])"

text \<open>
  Notifications for issue PROJ-1: recipients with the assignee and voters flags set and
  the watchers flag off; recipients without a \<open>users\<close> list; restrictions without a
  \<open>groups\<close> list.
\<close>

definition notify_flags :: parameters where
  "notify_flags =
     no_parameters\<lparr>resource := ''issue'', operation := ''notify'', issueKey := ''PROJ-1'',
       notificationRecipientsUi := [(''notificationRecipientsValues'',
         JObject [(''assignee'', JBool True), (''watchers'', JBool False),
                  (''voters'', JBool True), (''users'', JArray []), (''groups'', JArray [])])]\<rparr>"

definition notify_without_users :: parameters where
  "notify_without_users =
     no_parameters\<lparr>resource := ''issue'', operation := ''notify'', issueKey := ''PROJ-1'',
       notificationRecipientsUi := [(''notificationRecipientsValues'',
         JObject [(''reporter'', JBool True), (''groups'', JArray [])])]\<rparr>"

definition notify_without_groups :: parameters where
  "notify_without_groups =
     no_parameters\<lparr>resource := ''issue'', operation := ''notify'', issueKey := ''PROJ-1'',
       notificationRecipientsRestrictionsUi := [(''notificationRecipientsRestrictionsValues'',
         JObject [(''permissions'', JArray [])])]\<rparr>"

text \<open>The same comment and notification in raw-JSON mode, with the given texts.\<close>

definition raw_comment :: "json_text \<Rightarrow> parameters" where
  "raw_comment t = plain_comment\<lparr>jsonParameters := True, commentJson := t\<rparr>"

definition raw_notify :: "json_text \<Rightarrow> json_text \<Rightarrow> parameters" where
  "raw_notify recipients restrictions =
     no_parameters\<lparr>resource := ''issue'', operation := ''notify'', issueKey := ''PROJ-1'',
       jsonParameters := True, notificationRecipientsJson := recipients,
       notificationRecipientsRestrictionsJson := restrictions\<rparr>"

text \<open>
  A Jira whose issue-type lookup lists type 10001 (not a sub-task) and type 10002 (a
  sub-task), and which accepts every other call. Items that create, and that update, an
  issue of type 10002, without and with the parent key \<open>proj-7\<close>.
\<close>

definition issue_types :: json where
  "issue_types =
     JArray [JObject [(''id'', JString ''10001''), (''subtask'', JBool False)],
             JObject [(''id'', JString ''10002''), (''subtask'', JBool True)]]"

definition jira :: "api_call \<Rightarrow> json option" where
  "jira c = (if endpoint c = ''/api/2/issuetype'' then Some issue_types else Some (JObject []))"

definition create_subtask :: "IDataObject \<Rightarrow> parameters" where
  "create_subtask collected =
     no_parameters\<lparr>resource := ''issue'', operation := ''create'', summary := ''Fix it'',
       project := ''10000'', issueType := ''10002'', additionalFields := collected\<rparr>"

definition update_to_subtask :: "IDataObject \<Rightarrow> parameters" where
  "update_to_subtask collected =
     no_parameters\<lparr>resource := ''issue'', operation := ''update'', issueKey := ''PROJ-1'',
       updateFields := (''issueType'', JString ''10002'') # collected\<rparr>"

text \<open>
  Two items of issue get: the first asks for the field \<open>summary\<close> only, the second sets no
  additional field.
\<close>

definition get_issue :: "string \<Rightarrow> IDataObject \<Rightarrow> parameters" where
  "get_issue k collected =
     no_parameters\<lparr>resource := ''issue'', operation := ''get'', issueKey := k,
       additionalFields := collected\<rparr>"

text \<open>
  A search limited to three issues, against a Jira that holds five matching issues and
  caps a page at two.
\<close>

definition search_3 :: parameters where
  "search_3 =
     no_parameters\<lparr>resource := ''issue'', operation := ''getAll'', returnAll := False,
       limit := 3\<rparr>"

definition capped_page :: json where
  "capped_page =
     JObject [(''startAt'', JNum 0), (''maxResults'', JNum 2), (''total'', JNum 5),
              (''issues'', JArray [JObject [(''key'', JString ''PROJ-1'')],
                                   JObject [(''key'', JString ''PROJ-2'')]])]"

definition capped_jira :: "api_call \<Rightarrow> json option" where
  "capped_jira c = (if endpoint c = ''/api/2/search'' then Some capped_page else Some (JObject []))"

text \<open>
  The first two attachments of an issue that has three.
\<close>

definition attachments_2 :: parameters where
  "attachments_2 =
     no_parameters\<lparr>resource := ''issueAttachment'', operation := ''getAll'',
       issueKey := ''PROJ-1'', returnAll := False, limit := 2\<rparr>"

definition issue_with_3_attachments :: json where
  "issue_with_3_attachments =
     JObject [(''fields'', JObject [(''attachment'',
       JArray [JObject [(''id'', JString ''1'')], JObject [(''id'', JString ''2'')],
               JObject [(''id'', JString ''3'')]])])]"

definition attachment_jira :: "api_call \<Rightarrow> json option" where
  "attachment_jira c = Some issue_with_3_attachments"

text \<open>An item that adds an attachment; the items of \<open>invocation\<close> carry no binary data.\<close>

definition add_attachment :: parameters where
  "add_attachment =
     no_parameters\<lparr>resource := ''issueAttachment'', operation := ''add'',
       issueKey := ''PROJ-1'', binaryPropertyName := ''data''\<rparr>"

section \<open>Where a key of the \<open>fields\<close> object of an update comes from\<close>

text \<open>
  The collected update fields that feed a given key of the \<open>fields\<close> object, and the keys
  that the collected custom fields name.
\<close>

definition field_sources :: "string \<Rightarrow> string list" where
  "field_sources k =
     (if k = ''summary'' then [''summary'']
      else if k = ''issuetype'' then [''issueType'']
      else if k = ''labels'' then [''labels'', ''serverLabels'']
      else if k = ''priority'' then [''priority'']
      else if k = ''assignee'' then [''assignee'']
      else if k = ''reporter'' then [''reporter'']
      else if k = ''description'' then [''description'']
      else if k = ''parent'' then [''parentIssueKey'']
      else [])"

definition custom_field_keys :: "IDataObject \<Rightarrow> string list" where
  "custom_field_keys collected =
     (case member (get collected ''customFieldsUi'') ''customFieldsValues'' of
        JArray xs \<Rightarrow> map (\<lambda>entry. to_string (member entry ''fieldId'')) xs
      | _ \<Rightarrow> [])"

text \<open>An update of summary and parent, with one custom field, for an issue of type 10002.\<close>

definition sparse_update :: parameters where
  "sparse_update =
     update_to_subtask [(''summary'', JString ''New title''),
       (''parentIssueKey'', JString ''proj-7''),
       (''customFieldsUi'', JObject [(''customFieldsValues'',
          JArray [JObject [(''fieldId'', JString ''customfield_10010''),
                           (''fieldValue'', JNum 3)]])])]"

section \<open>Elasticsearch: the discriminator of document create and update\<close>

lemma fieldsUi_visible_iff:
  assumes "nodeValues ''resource'' = JString ''document''"
    and "nodeValues ''operation'' = JString ''create'' \<or> nodeValues ''operation'' = JString ''update''"
  shows "''fieldsUi'' \<in> set (visible_fields nodeValues)
           \<longleftrightarrow> nodeValues ''dataToSend'' = JString ''defineBelow''"
  using assms
  by (auto simp: visible_fields_def documentFields_def displayParameter_def show_for_def)

lemma inputsToIgnore_visible_iff:
  assumes "nodeValues ''resource'' = JString ''document''"
    and "nodeValues ''operation'' = JString ''create'' \<or> nodeValues ''operation'' = JString ''update''"
  shows "''inputsToIgnore'' \<in> set (visible_fields nodeValues)
           \<longleftrightarrow> nodeValues ''dataToSend'' = JString ''autoMapInputData''"
  using assms
  by (auto simp: visible_fields_def documentFields_def displayParameter_def show_for_def)

lemma offered_values_dataToSend:
  "set (offered_values ''dataToSend'') = {JString ''defineBelow'', JString ''autoMapInputData''}"
  by (auto simp: offered_values_def documentFields_def)

text \<open>
  Claim C8. For document create and update, "Fields to Send" (\<open>fieldsUi\<close>) is shown exactly
  when \<open>dataToSend\<close> is \<open>defineBelow\<close>, "Inputs to Ignore" (\<open>inputsToIgnore\<close>) exactly when it
  is \<open>autoMapInputData\<close>, and for every value that \<open>dataToSend\<close> offers exactly one of the
  two groups is shown.
\<close>

theorem dataToSend_selects_one_group:
  assumes "nodeValues ''resource'' = JString ''document''"
    and "nodeValues ''operation'' = JString ''create'' \<or> nodeValues ''operation'' = JString ''update''"
  shows "(''fieldsUi'' \<in> set (visible_fields nodeValues)
            \<longleftrightarrow> nodeValues ''dataToSend'' = JString ''defineBelow'')
       \<and> (''inputsToIgnore'' \<in> set (visible_fields nodeValues)
            \<longleftrightarrow> nodeValues ''dataToSend'' = JString ''autoMapInputData'')
       \<and> (nodeValues ''dataToSend'' \<in> set (offered_values ''dataToSend'')
            \<longrightarrow> (''fieldsUi'' \<in> set (visible_fields nodeValues))
                 \<noteq> (''inputsToIgnore'' \<in> set (visible_fields nodeValues)))"
proof -
  note f = fieldsUi_visible_iff [OF assms]
  note g = inputsToIgnore_visible_iff [OF assms]
  show ?thesis
    unfolding f g offered_values_dataToSend by auto
qed

theorem dataToSend_selects_one_group_witness:
  "document_values ''update'' ''autoMapInputData'' ''resource'' = JString ''document''
   \<and> document_values ''update'' ''autoMapInputData'' ''operation'' = JString ''update''
   \<and> document_values ''update'' ''autoMapInputData'' ''dataToSend''
        \<in> set (offered_values ''dataToSend'')
   \<and> ''inputsToIgnore'' \<in> set (visible_fields (document_values ''update'' ''autoMapInputData''))
   \<and> ''fieldsUi'' \<notin> set (visible_fields (document_values ''update'' ''autoMapInputData''))"
  using dataToSend_selects_one_group [of "document_values ''update'' ''autoMapInputData''"]
  by (simp add: document_values_def offered_values_def documentFields_def)

section \<open>Running the steps of \<open>execute\<close>\<close>

lemma bindE_Inr: "bindE (Inr x) f = f x"
  by (simp add: bindE_def)

lemma bindE_Inl: "bindE (Inl e) f = Inl e"
  by (simp add: bindE_def)

lemma bindX_return: "bindX (return x) f = f x"
  by (rule ext) (simp add: bindX_def return_def)

lemma bindX_throw: "bindX (throw e) f = throw e"
  by (rule ext) (simp add: bindX_def throw_def)

lemma bindX_lift_Inr: "bindX (lift (Inr x)) f = f x"
  by (rule ext) (simp add: bindX_def lift_def)

lemma bindX_lift_Inl: "bindX (lift (Inl e)) f = throw e"
  by (rule ext) (simp add: bindX_def lift_def throw_def)

lemma bindX_assoc: "bindX (bindX m f) g = bindX m (\<lambda>x. bindX (f x) g)"
  by (rule ext) (simp add: bindX_def split: prod.splits sum.splits)

lemma bindX_modify_qs: "bindX (modify_qs g) f s = f () (s\<lparr>qs := g (qs s)\<rparr>)"
  by (simp add: bindX_def modify_qs_def)

lemma bindX_get_qs: "bindX get_qs f s = f (qs s) s"
  by (simp add: bindX_def get_qs_def)

lemma bindX_request:
  "bindX (api ctx (request e m b q)) f s =
     (case jiraSoftwareCloudApiRequest ctx (calls s) (request e m b q) of
        None \<Rightarrow> (Inl NodeApiError, s\<lparr>calls := calls s @ [request e m b q]\<rparr>)
      | Some response \<Rightarrow> f response (s\<lparr>calls := calls s @ [request e m b q]\<rparr>))"
  by (simp add: bindX_def api_def request_def split: option.splits)

lemma request_sel:
  "propertyName (request e m b q) = None" "endpoint (request e m b q) = e"
  "http_method (request e m b q) = m" "body (request e m b q) = b" "query (request e m b q) = q"
  by (simp_all add: request_def)

lemma get_Nil: "get [] k = JUndefined"
  by (simp add: get_def)

lemma get_Cons: "get ((k, v) # obj) k' = (if k' = k then v else get obj k')"
  by (simp add: get_def)

lemma get_update: "get (AList.update k v obj) k' = (if k' = k then v else get obj k')"
  by (simp add: get_def update_conv')

lemma Object_assign_single: "Object_assign obj [(k, v)] = AList.update k v obj"
  by (simp add: Object_assign_def)

lemmas exec_simps =
  bindX_return bindX_throw bindX_lift_Inr bindX_lift_Inl bindX_modify_qs bindX_get_qs
  bindX_request

section \<open>Comments: the body of a plain-text comment\<close>

lemma issueComment_add_plain:
  assumes "jsonParameters (getNodeParameter ctx 0) = False"
  shows "\<exists>c. calls (snd (issueComment_add ctx version i s)) = calls s @ [c]
           \<and> http_method c = ''POST''
           \<and> member (body c) ''body'' = comment_body version (comment (getNodeParameter ctx i))"
  using assms
  by (simp add: issueComment_add_def Let_def exec_simps push_def throw_def
      Object_assign_single get_update get_Cons request_sel split: option.splits)

lemma issueComment_update_plain:
  assumes "jsonParameters (getNodeParameter ctx 0) = False"
  shows "\<exists>c. calls (snd (issueComment_update ctx version i s)) = calls s @ [c]
           \<and> http_method c = ''PUT''
           \<and> member (body c) ''body'' = comment_body version (comment (getNodeParameter ctx i))"
  using assms
  by (simp add: issueComment_update_def Let_def exec_simps push_def throw_def
      Object_assign_single get_update get_Cons request_sel split: option.splits)

text \<open>
  Claim C7. For comment add and update with \<open>jsonParameters = false\<close>, the request carries
  as its \<open>body\<close> field the structured-document envelope around the comment when the Jira
  version is \<open>cloud\<close>, and the plain comment string when it is \<open>server\<close>.
\<close>

theorem plain_comment_body_by_version:
  assumes "jsonParameters (getNodeParameter ctx 0) = False"
  shows "(\<exists>c. calls (snd (issueComment_add ctx version i s)) = calls s @ [c]
            \<and> http_method c = ''POST''
            \<and> (version = ''cloud'' \<longrightarrow> member (body c) ''body'' =
                  JObject [(''type'', JString ''doc''), (''version'', JNum 1),
                    (''content'', JArray [JObject [(''type'', JString ''paragraph''),
                      (''content'', JArray [JObject [(''type'', JString ''text''),
                        (''text'', JString (comment (getNodeParameter ctx i)))]])]])])
            \<and> (version = ''server'' \<longrightarrow> member (body c) ''body'' =
                  JString (comment (getNodeParameter ctx i))))
       \<and> (\<exists>c. calls (snd (issueComment_update ctx version i s)) = calls s @ [c]
            \<and> http_method c = ''PUT''
            \<and> (version = ''cloud'' \<longrightarrow> member (body c) ''body'' =
                  JObject [(''type'', JString ''doc''), (''version'', JNum 1),
                    (''content'', JArray [JObject [(''type'', JString ''paragraph''),
                      (''content'', JArray [JObject [(''type'', JString ''text''),
                        (''text'', JString (comment (getNodeParameter ctx i)))]])]])])
            \<and> (version = ''server'' \<longrightarrow> member (body c) ''body'' =
                  JString (comment (getNodeParameter ctx i))))"
proof -
  from issueComment_add_plain [OF assms, of version i s]
  obtain c where c: "calls (snd (issueComment_add ctx version i s)) = calls s @ [c]"
    "http_method c = ''POST''"
    "member (body c) ''body'' = comment_body version (comment (getNodeParameter ctx i))"
    by blast
  from issueComment_update_plain [OF assms, of version i s]
  obtain d where d: "calls (snd (issueComment_update ctx version i s)) = calls s @ [d]"
    "http_method d = ''PUT''"
    "member (body d) ''body'' = comment_body version (comment (getNodeParameter ctx i))"
    by blast
  show ?thesis
    apply (rule conjI)
     apply (rule exI [of _ c])
     apply (simp add: c comment_body_def)
    apply (rule exI [of _ d])
    apply (simp add: d comment_body_def)
    done
qed

theorem plain_comment_body_by_version_witness:
  "jsonParameters (getNodeParameter (invocation [plain_comment] accept) 0) = False
   \<and> (\<exists>c. calls (snd (issueComment_add (invocation [plain_comment] accept) ''cloud'' 0
                 initial_state)) = calls initial_state @ [c]
          \<and> member (body c) ''body'' =
               JObject [(''type'', JString ''doc''), (''version'', JNum 1),
                 (''content'', JArray [JObject [(''type'', JString ''paragraph''),
                   (''content'', JArray [JObject [(''type'', JString ''text''),
                     (''text'', JString ''hello'')]])]])])
   \<and> (\<exists>c. calls (snd (issueComment_update (invocation [plain_comment] accept) ''server'' 0
                 initial_state)) = calls initial_state @ [c]
          \<and> member (body c) ''body'' = JString ''hello'')"
proof -
  have h: "jsonParameters (getNodeParameter (invocation [plain_comment] accept) 0) = False"
    by (simp add: invocation_def plain_comment_def no_parameters_def)
  have v: "comment (getNodeParameter (invocation [plain_comment] accept) 0) = ''hello''"
    by (simp add: invocation_def plain_comment_def no_parameters_def)
  from plain_comment_body_by_version [OF h, of "''cloud''" 0 initial_state]
    plain_comment_body_by_version [OF h, of "''server''" 0 initial_state]
  show ?thesis
    unfolding v using h by auto
qed
section \<open>Notifications: the recipients object\<close>

lemma map_of_when_update:
  "map_of (when c (AList.update k v) obj) k' =
     (if c \<and> k' = k then Some v else map_of obj k')"
  by (simp add: when_def update_conv')

lemma member_falsy: "\<not> truthy v \<Longrightarrow> member v k = JUndefined"
  by (cases v) simp_all

lemma notificationRecipients_keys:
  assumes "notificationRecipients_of v = Inr r"
  shows "map_of r ''voters'' = None"
    and "map_of r ''watchers'' =
           (if truthy (member v ''voters'') then Some (member v ''voters'')
            else if truthy (member v ''assignee'') then Some (member v ''watchers'')
            else None)"
  using assms
  by (auto simp: notificationRecipients_of_def Let_def bindE_def update_conv'
      map_of_when_update member_falsy split: if_splits sum.splits)

lemma issue_notify_run:
  "issue_notify ctx i s =
     (case issue_notify_body (jsonParameters (getNodeParameter ctx 0)) (getNodeParameter ctx i) of
        Inl e \<Rightarrow> (Inl e, s)
      | Inr b \<Rightarrow>
          (case jiraSoftwareCloudApiRequest ctx (calls s)
                  (request (''/api/2/issue/'' @ issueKey (getNodeParameter ctx i) @ ''/notify'')
                     ''POST'' (JObject b) (JObject (qs s))) of
             None \<Rightarrow> (Inl NodeApiError,
               s\<lparr>calls := calls s @
                 [request (''/api/2/issue/'' @ issueKey (getNodeParameter ctx i) @ ''/notify'')
                    ''POST'' (JObject b) (JObject (qs s))]\<rparr>)
           | Some response \<Rightarrow> (Inr (),
               s\<lparr>calls := calls s @
                 [request (''/api/2/issue/'' @ issueKey (getNodeParameter ctx i) @ ''/notify'')
                    ''POST'' (JObject b) (JObject (qs s))],
                 returnData := returnData s @ [response]\<rparr>)))"
  by (simp add: issue_notify_def Let_def exec_simps push_def throw_def
      split: sum.splits option.splits)

lemma issue_notify_body_to:
  assumes "issue_notify_body False p = Inr b"
  shows "\<exists>r. notificationRecipients_of
               (get (notificationRecipientsUi p) ''notificationRecipientsValues'') = Inr r
           \<and> get b ''to'' = JObject r"
  using assms
  by (auto simp: issue_notify_body_def Let_def bindE_def get_update split: sum.splits)

text \<open>
  Claim C9. For issue notify with \<open>jsonParameters = false\<close>, the recipients object \<open>to\<close> of
  the request never has a \<open>voters\<close> key; its \<open>watchers\<close> key holds the input's voters value
  when that is truthy, otherwise the input's watchers value when the input's assignee
  value is truthy, and is absent otherwise.
\<close>

theorem notify_recipients_without_voters:
  assumes "jsonParameters (getNodeParameter ctx 0) = False"
    and "calls (snd (issue_notify ctx i s)) = calls s @ [c]"
  shows "\<exists>to. member (body c) ''to'' = JObject to
           \<and> ''voters'' \<notin> fst ` set to
           \<and> map_of to ''watchers'' =
               (let v = get (notificationRecipientsUi (getNodeParameter ctx i))
                          ''notificationRecipientsValues''
                in if truthy (member v ''voters'') then Some (member v ''voters'')
                   else if truthy (member v ''assignee'') then Some (member v ''watchers'')
                   else None)"
proof (cases "issue_notify_body False (getNodeParameter ctx i)")
  case (Inl e)
  with assms show ?thesis
    by (simp add: issue_notify_run)
next
  case (Inr b)
  from issue_notify_body_to [OF Inr] obtain r
    where r: "notificationRecipients_of
                (get (notificationRecipientsUi (getNodeParameter ctx i))
                   ''notificationRecipientsValues'') = Inr r"
      and to: "get b ''to'' = JObject r"
    by blast
  from assms Inr have c: "body c = JObject b"
    by (auto simp: issue_notify_run request_sel split: option.splits)
  have "''voters'' \<notin> fst ` set r"
    using notificationRecipients_keys(1) [OF r] by (simp add: map_of_eq_None_iff)
  with notificationRecipients_keys(2) [OF r] c to show ?thesis
    by (simp add: Let_def)
qed

theorem notify_recipients_without_voters_witness:
  "jsonParameters (getNodeParameter (invocation [notify_flags] accept) 0) = False
   \<and> calls (snd (issue_notify (invocation [notify_flags] accept) 0 initial_state))
       = calls initial_state @
         [request ''/api/2/issue/PROJ-1/notify'' ''POST''
            (JObject [(''to'', JObject [(''assignee'', JBool True), (''watchers'', JBool True)]),
                      (''restrict'', JObject [])])
            (JObject [])]
   \<and> (\<exists>to. member (body (request ''/api/2/issue/PROJ-1/notify'' ''POST''
            (JObject [(''to'', JObject [(''assignee'', JBool True), (''watchers'', JBool True)]),
                      (''restrict'', JObject [])])
            (JObject []))) ''to'' = JObject to
          \<and> ''voters'' \<notin> fst ` set to
          \<and> map_of to ''watchers'' = Some (JBool True))"
proof -
  have h: "jsonParameters (getNodeParameter (invocation [notify_flags] accept) 0) = False"
    by (simp add: invocation_def notify_flags_def no_parameters_def)
  have run: "calls (snd (issue_notify (invocation [notify_flags] accept) 0 initial_state))
       = calls initial_state @
         [request ''/api/2/issue/PROJ-1/notify'' ''POST''
            (JObject [(''to'', JObject [(''assignee'', JBool True), (''watchers'', JBool True)]),
                      (''restrict'', JObject [])])
            (JObject [])]"
    by (simp add: issue_notify_run issue_notify_body_def notificationRecipients_of_def
        notificationRecipientsRestrictions_of_def invocation_def notify_flags_def
        no_parameters_def initial_state_def accept_def Let_def bindE_def when_def
        get_Cons get_Nil)
  from notify_recipients_without_voters [OF h run] h run show ?thesis
    by (simp add: invocation_def notify_flags_def no_parameters_def get_Cons get_Nil Let_def)
qed

section \<open>Notifications: a recipients object without its lists\<close>

lemma get_absent: "k \<notin> fst ` set kvs \<Longrightarrow> get kvs k = JUndefined"
proof -
  assume "k \<notin> fst ` set kvs"
  then have "map_of kvs k = None"
    by (simp add: map_of_eq_None_iff)
  then show ?thesis
    by (simp add: get_def)
qed

lemma recipients_without_users:
  assumes "''users'' \<notin> fst ` set kvs"
  shows "notificationRecipients_of (JObject kvs) = Inl TypeError"
  using assms
  by (simp add: notificationRecipients_of_def Let_def bindE_def get_absent)

lemma restrictions_without_groups:
  assumes "''groups'' \<notin> fst ` set kvs"
  shows "notificationRecipientsRestrictions_of (JObject kvs) = Inl TypeError"
  using assms
  by (simp add: notificationRecipientsRestrictions_of_def bindE_def get_absent)

text \<open>
  Claim C10. For issue notify with \<open>jsonParameters = false\<close>: when
  \<open>notificationRecipientsValues\<close> is an object without a \<open>users\<close> property, or the recipients
  are built and \<open>notificationRecipientsRestrictionsValues\<close> is an object without a \<open>groups\<close>
  property, the item ends in a TypeError, which is not a validation error of the
  connector, and the state is untouched: the notify request has not been issued.
\<close>

theorem notify_missing_list_raises_TypeError:
  assumes "jsonParameters (getNodeParameter ctx 0) = False"
  shows "(get (notificationRecipientsUi (getNodeParameter ctx i))
            ''notificationRecipientsValues'' = JObject kvs
          \<and> ''users'' \<notin> fst ` set kvs
          \<longrightarrow> issue_notify ctx i s = (Inl TypeError, s))
       \<and> (notificationRecipients_of
            (get (notificationRecipientsUi (getNodeParameter ctx i))
               ''notificationRecipientsValues'') = Inr r
          \<and> get (notificationRecipientsRestrictionsUi (getNodeParameter ctx i))
               ''notificationRecipientsRestrictionsValues'' = JObject kvs'
          \<and> ''groups'' \<notin> fst ` set kvs'
          \<longrightarrow> issue_notify ctx i s = (Inl TypeError, s))"
  using assms
  by (auto simp: issue_notify_run issue_notify_body_def Let_def bindE_def
      recipients_without_users restrictions_without_groups)

theorem notify_missing_list_raises_TypeError_witness:
  "jsonParameters (getNodeParameter (invocation [notify_without_users] accept) 0) = False
   \<and> get (notificationRecipientsUi (getNodeParameter (invocation [notify_without_users] accept) 0))
        ''notificationRecipientsValues'' = JObject [(''reporter'', JBool True), (''groups'', JArray [])]
   \<and> ''users'' \<notin> fst ` set [(''reporter'', JBool True), (''groups'', JArray [])]
   \<and> issue_notify (invocation [notify_without_users] accept) 0 initial_state
        = (Inl TypeError, initial_state)
   \<and> jsonParameters (getNodeParameter (invocation [notify_without_groups] accept) 0) = False
   \<and> notificationRecipients_of
        (get (notificationRecipientsUi (getNodeParameter (invocation [notify_without_groups] accept) 0))
           ''notificationRecipientsValues'') = Inr []
   \<and> get (notificationRecipientsRestrictionsUi
             (getNodeParameter (invocation [notify_without_groups] accept) 0))
        ''notificationRecipientsRestrictionsValues'' = JObject [(''permissions'', JArray [])]
   \<and> ''groups'' \<notin> fst ` set [(''permissions'', JArray [])]
   \<and> issue_notify (invocation [notify_without_groups] accept) 0 initial_state
        = (Inl TypeError, initial_state)"
proof -
  have h1: "jsonParameters (getNodeParameter (invocation [notify_without_users] accept) 0) = False"
    by (simp add: invocation_def notify_without_users_def no_parameters_def)
  have u: "get (notificationRecipientsUi
                  (getNodeParameter (invocation [notify_without_users] accept) 0))
             ''notificationRecipientsValues''
           = JObject [(''reporter'', JBool True), (''groups'', JArray [])]"
    by (simp add: invocation_def notify_without_users_def no_parameters_def get_Cons)
  have nu: "''users'' \<notin> fst ` set [(''reporter'', JBool True), (''groups'', JArray [])]"
    by simp
  have h2: "jsonParameters (getNodeParameter (invocation [notify_without_groups] accept) 0) = False"
    by (simp add: invocation_def notify_without_groups_def no_parameters_def)
  have r: "notificationRecipients_of
        (get (notificationRecipientsUi (getNodeParameter (invocation [notify_without_groups] accept) 0))
           ''notificationRecipientsValues'') = Inr []"
    by (simp add: invocation_def notify_without_groups_def no_parameters_def get_Nil
        notificationRecipients_of_def)
  have g: "get (notificationRecipientsRestrictionsUi
             (getNodeParameter (invocation [notify_without_groups] accept) 0))
        ''notificationRecipientsRestrictionsValues'' = JObject [(''permissions'', JArray [])]"
    by (simp add: invocation_def notify_without_groups_def no_parameters_def get_Cons)
  have ng: "''groups'' \<notin> fst ` set [(''permissions'', JArray [])]"
    by simp
  from notify_missing_list_raises_TypeError [OF h1, of 0
      "[(''reporter'', JBool True), (''groups'', JArray [])]" initial_state] u nu
  have a: "issue_notify (invocation [notify_without_users] accept) 0 initial_state
        = (Inl TypeError, initial_state)"
    by blast
  from notify_missing_list_raises_TypeError [OF h2, of 0 _ initial_state "[]"
      "[(''permissions'', JArray [])]"] r g ng
  have b: "issue_notify (invocation [notify_without_groups] accept) 0 initial_state
        = (Inl TypeError, initial_state)"
    by blast
  from h1 u nu a h2 r g ng b show ?thesis
    by blast
qed

section \<open>Raw-JSON mode\<close>

lemma issueComment_add_raw_invalid:
  assumes "jsonParameters (getNodeParameter ctx 0) = True"
    and "commentJson (getNodeParameter ctx i) = None
         \<or> commentJson (getNodeParameter ctx i) = Some (JString [])"
  shows "fst (issueComment_add ctx version i s)
           = Inl (NodeOperationError ''Document Format must be a valid JSON'')"
    and "calls (snd (issueComment_add ctx version i s)) = calls s"
  using assms
  by (auto simp: issueComment_add_def Let_def exec_simps throw_def validateJSON_def)

lemma issueComment_update_raw_invalid:
  assumes "jsonParameters (getNodeParameter ctx 0) = True"
    and "commentJson (getNodeParameter ctx i) = None
         \<or> commentJson (getNodeParameter ctx i) = Some (JString [])"
  shows "fst (issueComment_update ctx version i s)
           = Inl (NodeOperationError ''Document Format must be a valid JSON'')"
    and "calls (snd (issueComment_update ctx version i s)) = calls s"
  using assms
  by (auto simp: issueComment_update_def Let_def exec_simps throw_def validateJSON_def)

lemma issueComment_add_raw_valid:
  assumes "jsonParameters (getNodeParameter ctx 0) = True"
    and "commentJson (getNodeParameter ctx i) = Some j" and "j \<noteq> JString []"
  shows "\<exists>c. calls (snd (issueComment_add ctx version i s)) = calls s @ [c]
           \<and> http_method c = ''POST'' \<and> member (body c) ''body'' = j"
  using assms
  by (simp add: issueComment_add_def Let_def exec_simps push_def throw_def validateJSON_def
      Object_assign_single get_update get_Cons request_sel split: option.splits)

lemma issueComment_update_raw_valid:
  assumes "jsonParameters (getNodeParameter ctx 0) = True"
    and "commentJson (getNodeParameter ctx i) = Some j" and "j \<noteq> JString []"
  shows "\<exists>c. calls (snd (issueComment_update ctx version i s)) = calls s @ [c]
           \<and> http_method c = ''PUT'' \<and> member (body c) ''body'' = j"
  using assms
  by (simp add: issueComment_update_def Let_def exec_simps push_def throw_def validateJSON_def
      Object_assign_single get_update get_Cons request_sel split: option.splits)

lemma get_when_update:
  "get (when c (AList.update k v) obj) k' = (if c \<and> k' = k then v else get obj k')"
  by (simp add: when_def get_update)

lemma issue_notify_raw:
  assumes "jsonParameters (getNodeParameter ctx 0) = True"
  shows "\<exists>c. calls (snd (issue_notify ctx i s)) = calls s @ [c]
           \<and> http_method c = ''POST''
           \<and> member (body c) ''to'' =
               (if truthy (validateJSON (notificationRecipientsJson (getNodeParameter ctx i)))
                then validateJSON (notificationRecipientsJson (getNodeParameter ctx i))
                else JUndefined)
           \<and> member (body c) ''restrict'' =
               (if truthy (validateJSON
                     (notificationRecipientsRestrictionsJson (getNodeParameter ctx i)))
                then validateJSON
                     (notificationRecipientsRestrictionsJson (getNodeParameter ctx i))
                else JUndefined)"
  using assms
  by (simp add: issue_notify_run issue_notify_body_def Let_def get_when_update get_Nil
      request_sel split: option.splits)

text \<open>
  Claim C3, as amended. In raw-JSON mode, comment add and update fail with the
  connector's validation error, before any request for the item, when the text is not
  valid JSON or is the JSON empty string; otherwise the parsed value is the \<open>body\<close> field
  of the one request they issue. Issue notify validates nothing: it always issues its
  request, whose \<open>to\<close> and \<open>restrict\<close> fields are the parsed values when these are truthy,
  and are left out when the text is not valid JSON or parses to a falsy value.
\<close>

theorem raw_json_passthrough:
  assumes "jsonParameters (getNodeParameter ctx 0) = True"
  shows "(commentJson (getNodeParameter ctx i) = None
            \<or> commentJson (getNodeParameter ctx i) = Some (JString [])
          \<longrightarrow> fst (issueComment_add ctx version i s)
                = Inl (NodeOperationError ''Document Format must be a valid JSON'')
              \<and> calls (snd (issueComment_add ctx version i s)) = calls s
              \<and> fst (issueComment_update ctx version i s)
                = Inl (NodeOperationError ''Document Format must be a valid JSON'')
              \<and> calls (snd (issueComment_update ctx version i s)) = calls s)
       \<and> (commentJson (getNodeParameter ctx i) = Some j \<and> j \<noteq> JString []
          \<longrightarrow> (\<exists>c. calls (snd (issueComment_add ctx version i s)) = calls s @ [c]
                  \<and> http_method c = ''POST'' \<and> member (body c) ''body'' = j)
              \<and> (\<exists>c. calls (snd (issueComment_update ctx version i s)) = calls s @ [c]
                  \<and> http_method c = ''PUT'' \<and> member (body c) ''body'' = j))
       \<and> (\<exists>c. calls (snd (issue_notify ctx i s)) = calls s @ [c]
            \<and> http_method c = ''POST''
            \<and> member (body c) ''to'' =
                (if truthy (validateJSON (notificationRecipientsJson (getNodeParameter ctx i)))
                 then validateJSON (notificationRecipientsJson (getNodeParameter ctx i))
                 else JUndefined)
            \<and> member (body c) ''restrict'' =
                (if truthy (validateJSON
                      (notificationRecipientsRestrictionsJson (getNodeParameter ctx i)))
                 then validateJSON
                      (notificationRecipientsRestrictionsJson (getNodeParameter ctx i))
                 else JUndefined))"
  using issueComment_add_raw_invalid [OF assms, of i version s]
    issueComment_update_raw_invalid [OF assms, of i version s]
    issueComment_add_raw_valid [OF assms, of i j version s]
    issueComment_update_raw_valid [OF assms, of i j version s]
    issue_notify_raw [OF assms, of i s]
  by blast

theorem raw_json_passthrough_witness:
  "jsonParameters (getNodeParameter (invocation [raw_comment None] accept) 0) = True
   \<and> commentJson (getNodeParameter (invocation [raw_comment None] accept) 0) = None
   \<and> fst (issueComment_add (invocation [raw_comment None] accept) ''cloud'' 0 initial_state)
        = Inl (NodeOperationError ''Document Format must be a valid JSON'')
   \<and> calls (snd (issueComment_add (invocation [raw_comment None] accept) ''cloud'' 0
        initial_state)) = calls initial_state
   \<and> jsonParameters (getNodeParameter
        (invocation [raw_comment (Some (JObject [(''type'', JString ''doc'')]))] accept) 0) = True
   \<and> commentJson (getNodeParameter
        (invocation [raw_comment (Some (JObject [(''type'', JString ''doc'')]))] accept) 0)
        = Some (JObject [(''type'', JString ''doc'')])
   \<and> JObject [(''type'', JString ''doc'')] \<noteq> JString []
   \<and> (\<exists>c. calls (snd (issueComment_update
              (invocation [raw_comment (Some (JObject [(''type'', JString ''doc'')]))] accept)
              ''cloud'' 0 initial_state)) = calls initial_state @ [c]
          \<and> http_method c = ''PUT''
          \<and> member (body c) ''body'' = JObject [(''type'', JString ''doc'')])
   \<and> (\<exists>c. calls (snd (issue_notify
              (invocation [raw_notify (Some (JObject [(''reporter'', JBool True)])) None] accept)
              0 initial_state)) = calls initial_state @ [c]
          \<and> member (body c) ''to'' = JObject [(''reporter'', JBool True)]
          \<and> member (body c) ''restrict'' = JUndefined)"
proof -
  have h1: "jsonParameters (getNodeParameter (invocation [raw_comment None] accept) 0) = True"
    and n1: "commentJson (getNodeParameter (invocation [raw_comment None] accept) 0) = None"
    by (simp_all add: invocation_def raw_comment_def plain_comment_def no_parameters_def)
  have h2: "jsonParameters (getNodeParameter
        (invocation [raw_comment (Some (JObject [(''type'', JString ''doc'')]))] accept) 0) = True"
    and n2: "commentJson (getNodeParameter
        (invocation [raw_comment (Some (JObject [(''type'', JString ''doc'')]))] accept) 0)
        = Some (JObject [(''type'', JString ''doc'')])"
    by (simp_all add: invocation_def raw_comment_def plain_comment_def no_parameters_def)
  have d: "JObject [(''type'', JString ''doc'')] \<noteq> JString []"
    by simp
  have h3: "jsonParameters (getNodeParameter
        (invocation [raw_notify (Some (JObject [(''reporter'', JBool True)])) None] accept) 0)
        = True"
    and t3: "notificationRecipientsJson (getNodeParameter
        (invocation [raw_notify (Some (JObject [(''reporter'', JBool True)])) None] accept) 0)
        = Some (JObject [(''reporter'', JBool True)])"
    and r3: "notificationRecipientsRestrictionsJson (getNodeParameter
        (invocation [raw_notify (Some (JObject [(''reporter'', JBool True)])) None] accept) 0)
        = None"
    by (simp_all add: invocation_def raw_notify_def no_parameters_def)
  from raw_json_passthrough [OF h1, of 0 "''cloud''" initial_state] n1
  have a: "fst (issueComment_add (invocation [raw_comment None] accept) ''cloud'' 0 initial_state)
        = Inl (NodeOperationError ''Document Format must be a valid JSON'')"
    "calls (snd (issueComment_add (invocation [raw_comment None] accept) ''cloud'' 0
        initial_state)) = calls initial_state"
    by blast+
  from raw_json_passthrough [OF h2, of 0 "''cloud''" initial_state
      "JObject [(''type'', JString ''doc'')]"] n2 d
  have b: "\<exists>c. calls (snd (issueComment_update
              (invocation [raw_comment (Some (JObject [(''type'', JString ''doc'')]))] accept)
              ''cloud'' 0 initial_state)) = calls initial_state @ [c]
          \<and> http_method c = ''PUT''
          \<and> member (body c) ''body'' = JObject [(''type'', JString ''doc'')]"
    by blast
  from raw_json_passthrough [OF h3, of 0 "''cloud''" initial_state]
  have c: "\<exists>c. calls (snd (issue_notify
              (invocation [raw_notify (Some (JObject [(''reporter'', JBool True)])) None] accept)
              0 initial_state)) = calls initial_state @ [c]
          \<and> member (body c) ''to'' = JObject [(''reporter'', JBool True)]
          \<and> member (body c) ''restrict'' = JUndefined"
    unfolding t3 r3 by (auto simp: validateJSON_def)
  from h1 n1 a h2 n2 d b c show ?thesis
    by blast
qed

text \<open>
  Claim C3 as stated fails for issue notify: with recipients and restrictions texts that
  are not valid JSON, the item raises no error and its request is issued, with an empty
  body.
\<close>

theorem notify_accepts_malformed_json:
  "execute (invocation [raw_notify None None] accept)
     = (Inr [JObject []],
        [request ''/api/2/issue/PROJ-1/notify'' ''POST'' (JObject []) (JObject [])])"
  by code_simp

section \<open>Sub-tasks need a parent\<close>

lemma check_parent_missing:
  assumes "\<not> truthy parentIssueKey" and "js_includes subtaskIssues issueTypeId"
  shows "check_parent parentIssueKey subtaskIssues issueTypeId issue_fields
         = Inl (NodeOperationError ''You must define a Parent Issue Key when Issue type is sub-task'')"
  using assms by (simp add: check_parent_def)

lemma check_parent_given:
  assumes "k \<noteq> []" and "js_includes subtaskIssues issueTypeId"
  shows "check_parent (JString k) subtaskIssues issueTypeId issue_fields
         = Inr (AList.update ''parent''
                 (JObject [(''key'', JString (map toUpperCase_char k))]) issue_fields)"
  using assms by (simp add: check_parent_def bindE_def)

lemma issue_create_run:
  assumes "issue_create_fields version (getNodeParameter ctx i) = Inr issue_fields"
    and "\<And>issued q. jiraSoftwareCloudApiRequest ctx issued
           (request ''/api/2/issuetype'' ''GET'' (JObject []) q) = Some issueTypes"
    and "subtaskIssues_of issueTypes = Inr subtaskIssues"
  shows "\<exists>q. issue_create ctx version i s =
          (let s1 = s\<lparr>qs := q, calls := calls s @
                     [request ''/api/2/issuetype'' ''GET'' (JObject []) (JObject q)]\<rparr>
           in case check_parent (get (additionalFields (getNodeParameter ctx i)) ''parentIssueKey'')
                     subtaskIssues (JString (issueType (getNodeParameter ctx i))) issue_fields of
                Inl e \<Rightarrow> (Inl e, s1)
              | Inr checked \<Rightarrow>
                  bindX (api ctx (request ''/api/2/issue'' ''POST''
                           (JObject [(''fields'', JObject checked)]) JUndefined))
                    (\<lambda>responseData. push [responseData]) s1)"
  using assms
  by (auto simp: issue_create_def Let_def bindX_modify_qs bindX_get_qs bindX_lift_Inr
      bindX_lift_Inl bindX_request throw_def split: sum.splits)

lemma calls_api_push:
  "calls (snd (bindX (api ctx c) (\<lambda>responseData. push (f responseData)) s)) = calls s @ [c]"
  by (simp add: bindX_def api_def push_def split: option.splits)

lemma issue_create_parent_missing:
  assumes "issue_create_fields version (getNodeParameter ctx i) = Inr issue_fields"
    and "\<And>issued q. jiraSoftwareCloudApiRequest ctx issued
           (request ''/api/2/issuetype'' ''GET'' (JObject []) q) = Some issueTypes"
    and "subtaskIssues_of issueTypes = Inr subtaskIssues"
    and "js_includes subtaskIssues (JString (issueType (getNodeParameter ctx i)))"
    and "\<not> truthy (get (additionalFields (getNodeParameter ctx i)) ''parentIssueKey'')"
  shows "fst (issue_create ctx version i s)
           = Inl (NodeOperationError
               ''You must define a Parent Issue Key when Issue type is sub-task'')
         \<and> (\<exists>q. calls (snd (issue_create ctx version i s))
               = calls s @ [request ''/api/2/issuetype'' ''GET'' (JObject []) q])"
proof -
  from issue_create_run [OF assms(1-3), of s] obtain q where
    "issue_create ctx version i s =
       (Inl (NodeOperationError
          ''You must define a Parent Issue Key when Issue type is sub-task''),
        s\<lparr>qs := q, calls := calls s @
          [request ''/api/2/issuetype'' ''GET'' (JObject []) (JObject q)]\<rparr>)"
    by (auto simp: Let_def check_parent_missing [OF assms(5,4)])
  then show ?thesis
    by auto
qed

lemma issue_create_parent_given:
  assumes "issue_create_fields version (getNodeParameter ctx i) = Inr issue_fields"
    and "\<And>issued q. jiraSoftwareCloudApiRequest ctx issued
           (request ''/api/2/issuetype'' ''GET'' (JObject []) q) = Some issueTypes"
    and "subtaskIssues_of issueTypes = Inr subtaskIssues"
    and "js_includes subtaskIssues (JString (issueType (getNodeParameter ctx i)))"
    and "get (additionalFields (getNodeParameter ctx i)) ''parentIssueKey'' = JString k"
    and "k \<noteq> []"
  shows "\<exists>q c. calls (snd (issue_create ctx version i s))
               = calls s @ [request ''/api/2/issuetype'' ''GET'' (JObject []) q, c]
           \<and> http_method c = ''POST'' \<and> endpoint c = ''/api/2/issue''
           \<and> member (member (body c) ''fields'') ''parent''
               = JObject [(''key'', JString (map toUpperCase_char k))]"
proof -
  let ?checked = "AList.update ''parent''
                    (JObject [(''key'', JString (map toUpperCase_char k))]) issue_fields"
  let ?post = "request ''/api/2/issue'' ''POST'' (JObject [(''fields'', JObject ?checked)])
                 JUndefined"
  from issue_create_run [OF assms(1-3), of s] obtain q where
    "issue_create ctx version i s =
       bindX (api ctx ?post) (\<lambda>responseData. push [responseData])
         (s\<lparr>qs := q, calls := calls s @
            [request ''/api/2/issuetype'' ''GET'' (JObject []) (JObject q)]\<rparr>)"
    by (auto simp: Let_def assms(5) check_parent_given [OF assms(6,4)])
  then have "calls (snd (issue_create ctx version i s))
               = calls s @ [request ''/api/2/issuetype'' ''GET'' (JObject []) (JObject q), ?post]"
    by (simp add: calls_api_push)
  moreover have "member (member (body ?post) ''fields'') ''parent''
               = JObject [(''key'', JString (map toUpperCase_char k))]"
    by (simp add: request_sel get_Cons get_update)
  ultimately show ?thesis
    by (metis request_sel(2,3))
qed

lemma issue_update_run:
  assumes "issue_update_fields version (updateFields (getNodeParameter ctx i)) = Inr issue_fields"
    and "\<And>issued q. jiraSoftwareCloudApiRequest ctx issued
           (request ''/api/2/issuetype'' ''GET'' (JObject []) q) = Some issueTypes"
    and "subtaskIssues_of issueTypes = Inr subtaskIssues"
  shows "issue_update ctx version i s =
          (let s1 = s\<lparr>calls := calls s @
                     [request ''/api/2/issuetype'' ''GET'' (JObject []) JUndefined]\<rparr>;
               issueKey = issueKey (getNodeParameter ctx i);
               updateFields = updateFields (getNodeParameter ctx i)
           in case check_parent (get updateFields ''parentIssueKey'') subtaskIssues
                     (get updateFields ''issueType'') issue_fields of
                Inl e \<Rightarrow> (Inl e, s1)
              | Inr checked \<Rightarrow>
                  bindX (if truthy (get updateFields ''statusId'') then
                           bindX (api ctx (request (''/api/2/issue/'' @ issueKey @ ''/transitions'')
                                    ''POST'' (JObject [(''transition'',
                                       JObject [(''id'', get updateFields ''statusId'')])])
                                    JUndefined))
                             (\<lambda>responseData. return ())
                         else return ()) (\<lambda>_.
                  bindX (api ctx (request (''/api/2/issue/'' @ issueKey) ''PUT''
                           (JObject [(''fields'', JObject checked)]) JUndefined))
                    (\<lambda>responseData. push [success])) s1)"
  using assms
  by (auto simp: issue_update_def Let_def bindX_lift_Inr bindX_lift_Inl bindX_request
      throw_def split: sum.splits)

lemma issue_update_parent_missing:
  assumes "issue_update_fields version (updateFields (getNodeParameter ctx i)) = Inr issue_fields"
    and "\<And>issued q. jiraSoftwareCloudApiRequest ctx issued
           (request ''/api/2/issuetype'' ''GET'' (JObject []) q) = Some issueTypes"
    and "subtaskIssues_of issueTypes = Inr subtaskIssues"
    and "js_includes subtaskIssues (get (updateFields (getNodeParameter ctx i)) ''issueType'')"
    and "\<not> truthy (get (updateFields (getNodeParameter ctx i)) ''parentIssueKey'')"
  shows "fst (issue_update ctx version i s)
           = Inl (NodeOperationError
               ''You must define a Parent Issue Key when Issue type is sub-task'')
         \<and> calls (snd (issue_update ctx version i s))
             = calls s @ [request ''/api/2/issuetype'' ''GET'' (JObject []) JUndefined]"
  by (simp add: issue_update_run [OF assms(1-3)] Let_def check_parent_missing [OF assms(5,4)])

lemma issue_update_parent_given:
  assumes "issue_update_fields version (updateFields (getNodeParameter ctx i)) = Inr issue_fields"
    and "\<And>issued q. jiraSoftwareCloudApiRequest ctx issued
           (request ''/api/2/issuetype'' ''GET'' (JObject []) q) = Some issueTypes"
    and "subtaskIssues_of issueTypes = Inr subtaskIssues"
    and "js_includes subtaskIssues (get (updateFields (getNodeParameter ctx i)) ''issueType'')"
    and "get (updateFields (getNodeParameter ctx i)) ''parentIssueKey'' = JString k"
    and "k \<noteq> []"
  shows "\<exists>put. http_method put = ''PUT''
           \<and> member (member (body put) ''fields'') ''parent''
               = JObject [(''key'', JString (map toUpperCase_char k))]
           \<and> (if truthy (get (updateFields (getNodeParameter ctx i)) ''statusId'') then
                 \<exists>transition. http_method transition = ''POST''
                   \<and> (calls (snd (issue_update ctx version i s))
                        = calls s @ [request ''/api/2/issuetype'' ''GET'' (JObject []) JUndefined,
                                     transition, put]
                      \<or> fst (issue_update ctx version i s) = Inl NodeApiError
                        \<and> calls (snd (issue_update ctx version i s))
                          = calls s @ [request ''/api/2/issuetype'' ''GET'' (JObject []) JUndefined,
                                       transition])
               else calls (snd (issue_update ctx version i s))
                      = calls s @ [request ''/api/2/issuetype'' ''GET'' (JObject []) JUndefined,
                                   put])"
proof -
  let ?checked = "AList.update ''parent''
                    (JObject [(''key'', JString (map toUpperCase_char k))]) issue_fields"
  let ?put = "request (''/api/2/issue/'' @ issueKey (getNodeParameter ctx i)) ''PUT''
                (JObject [(''fields'', JObject ?checked)]) JUndefined"
  let ?lookup = "request ''/api/2/issuetype'' ''GET'' (JObject []) JUndefined"
  let ?status = "get (updateFields (getNodeParameter ctx i)) ''statusId''"
  let ?transition = "request (''/api/2/issue/'' @ issueKey (getNodeParameter ctx i)
                        @ ''/transitions'') ''POST''
                       (JObject [(''transition'', JObject [(''id'', ?status)])]) JUndefined"
  let ?s1 = "s\<lparr>calls := calls s @ [?lookup]\<rparr>"
  have parent: "member (member (body ?put) ''fields'') ''parent''
               = JObject [(''key'', JString (map toUpperCase_char k))]"
    by (simp add: request_sel get_Cons get_update)
  have run: "issue_update ctx version i s =
      bindX (if truthy ?status then
               bindX (api ctx ?transition) (\<lambda>responseData. return ())
             else return ()) (\<lambda>_.
      bindX (api ctx ?put) (\<lambda>responseData. push [success])) ?s1"
    by (simp add: issue_update_run [OF assms(1-3)] Let_def assms(5)
        check_parent_given [OF assms(6,4)])
  show ?thesis
  proof (cases "truthy ?status")
    case False
    with run have "calls (snd (issue_update ctx version i s)) = calls s @ [?lookup, ?put]"
      by (simp add: bindX_return calls_api_push)
    with False parent show ?thesis
      by (intro exI [of _ ?put]) (simp add: request_sel)
  next
    case True
    show ?thesis
    proof (cases "jiraSoftwareCloudApiRequest ctx (calls ?s1) ?transition")
      case None
      with run True have "fst (issue_update ctx version i s) = Inl NodeApiError"
        and "calls (snd (issue_update ctx version i s)) = calls s @ [?lookup, ?transition]"
        by (simp_all add: bindX_assoc bindX_request)
      with True parent show ?thesis
        by (intro exI [of _ ?put]) (auto simp: request_sel intro: exI [of _ ?transition])
    next
      case (Some response)
      with run True
      have "calls (snd (issue_update ctx version i s)) = calls s @ [?lookup, ?transition, ?put]"
        by (simp add: bindX_assoc bindX_request bindX_return push_def split: option.splits)
      with True parent show ?thesis
        by (intro exI [of _ ?put]) (auto simp: request_sel intro: exI [of _ ?transition])
    qed
  qed
qed

text \<open>
  Claim C1. Let the issue-type lookup answer with \<open>issueTypes\<close>, whose sub-task types have
  the identifiers \<open>subtaskIssues\<close>, and let the item's type be one of them, the \<open>fields\<close>
  object having been built. For issue create and issue update: without a parent issue
  key the item fails with the connector's validation error and the only call issued for
  it is the lookup GET, so no POST or PUT; with the parent issue key \<open>k\<close> the POST of
  create, and the PUT of update, carry \<open>fields.parent.key\<close> equal to \<open>k\<close> in upper case.
  (The PUT is the last call of an update; it is preceded by the status transition when
  one is requested, and is not reached when that transition is refused.)
\<close>

theorem subtask_needs_parent_key:
  assumes "\<forall>issued c. endpoint c = ''/api/2/issuetype''
             \<longrightarrow> jiraSoftwareCloudApiRequest ctx issued c = Some issueTypes"
    and "subtaskIssues_of issueTypes = Inr subtaskIssues"
  shows "(issue_create_fields version (getNodeParameter ctx i) = Inr created
          \<and> js_includes subtaskIssues (JString (issueType (getNodeParameter ctx i)))
          \<longrightarrow>
            (\<not> truthy (get (additionalFields (getNodeParameter ctx i)) ''parentIssueKey'')
             \<longrightarrow> fst (issue_create ctx version i s)
                   = Inl (NodeOperationError
                       ''You must define a Parent Issue Key when Issue type is sub-task'')
                 \<and> (\<exists>q. calls (snd (issue_create ctx version i s))
                       = calls s @ [request ''/api/2/issuetype'' ''GET'' (JObject []) q]))
          \<and> (get (additionalFields (getNodeParameter ctx i)) ''parentIssueKey'' = JString k
               \<and> k \<noteq> []
             \<longrightarrow> (\<exists>q c. calls (snd (issue_create ctx version i s))
                       = calls s @ [request ''/api/2/issuetype'' ''GET'' (JObject []) q, c]
                     \<and> http_method c = ''POST'' \<and> endpoint c = ''/api/2/issue''
                     \<and> member (member (body c) ''fields'') ''parent''
                         = JObject [(''key'', JString (map toUpperCase_char k))])))
       \<and> (issue_update_fields version (updateFields (getNodeParameter ctx i)) = Inr updated
          \<and> js_includes subtaskIssues (get (updateFields (getNodeParameter ctx i)) ''issueType'')
          \<longrightarrow>
            (\<not> truthy (get (updateFields (getNodeParameter ctx i)) ''parentIssueKey'')
             \<longrightarrow> fst (issue_update ctx version i s)
                   = Inl (NodeOperationError
                       ''You must define a Parent Issue Key when Issue type is sub-task'')
                 \<and> calls (snd (issue_update ctx version i s))
                     = calls s @ [request ''/api/2/issuetype'' ''GET'' (JObject []) JUndefined])
          \<and> (get (updateFields (getNodeParameter ctx i)) ''parentIssueKey'' = JString k
               \<and> k \<noteq> []
             \<longrightarrow> (\<exists>put. http_method put = ''PUT''
                     \<and> member (member (body put) ''fields'') ''parent''
                         = JObject [(''key'', JString (map toUpperCase_char k))]
                     \<and> (if truthy (get (updateFields (getNodeParameter ctx i)) ''statusId'') then
                           \<exists>transition. http_method transition = ''POST''
                             \<and> (calls (snd (issue_update ctx version i s))
                                  = calls s @ [request ''/api/2/issuetype'' ''GET'' (JObject [])
                                                 JUndefined, transition, put]
                                \<or> fst (issue_update ctx version i s) = Inl NodeApiError
                                  \<and> calls (snd (issue_update ctx version i s))
                                    = calls s @ [request ''/api/2/issuetype'' ''GET'' (JObject [])
                                                   JUndefined, transition])
                         else calls (snd (issue_update ctx version i s))
                                = calls s @ [request ''/api/2/issuetype'' ''GET'' (JObject [])
                                               JUndefined, put]))))"
proof -
  have lookup: "\<And>issued q. jiraSoftwareCloudApiRequest ctx issued
           (request ''/api/2/issuetype'' ''GET'' (JObject []) q) = Some issueTypes"
    using assms(1) by (simp add: request_sel)
  note ids = assms(2)
  show ?thesis
  proof (intro conjI impI; (elim conjE)?)
    assume "issue_create_fields version (getNodeParameter ctx i) = Inr created"
      and "js_includes subtaskIssues (JString (issueType (getNodeParameter ctx i)))"
      and "\<not> truthy (get (additionalFields (getNodeParameter ctx i)) ''parentIssueKey'')"
    from issue_create_parent_missing [OF this(1) lookup ids this(2,3), of s]
    show "fst (issue_create ctx version i s)
            = Inl (NodeOperationError
                ''You must define a Parent Issue Key when Issue type is sub-task'')"
      and "\<exists>q. calls (snd (issue_create ctx version i s))
                = calls s @ [request ''/api/2/issuetype'' ''GET'' (JObject []) q]"
      by blast+
  next
    assume "issue_create_fields version (getNodeParameter ctx i) = Inr created"
      and "js_includes subtaskIssues (JString (issueType (getNodeParameter ctx i)))"
      and "get (additionalFields (getNodeParameter ctx i)) ''parentIssueKey'' = JString k"
      and "k \<noteq> []"
    from issue_create_parent_given [OF this(1) lookup ids this(2,3,4), of s]
    show "\<exists>q c. calls (snd (issue_create ctx version i s))
                  = calls s @ [request ''/api/2/issuetype'' ''GET'' (JObject []) q, c]
              \<and> http_method c = ''POST'' \<and> endpoint c = ''/api/2/issue''
              \<and> member (member (body c) ''fields'') ''parent''
                  = JObject [(''key'', JString (map toUpperCase_char k))]" .
  next
    assume "issue_update_fields version (updateFields (getNodeParameter ctx i)) = Inr updated"
      and "js_includes subtaskIssues (get (updateFields (getNodeParameter ctx i)) ''issueType'')"
      and "\<not> truthy (get (updateFields (getNodeParameter ctx i)) ''parentIssueKey'')"
    from issue_update_parent_missing [OF this(1) lookup ids this(2,3), of s]
    show "fst (issue_update ctx version i s)
            = Inl (NodeOperationError
                ''You must define a Parent Issue Key when Issue type is sub-task'')"
      and "calls (snd (issue_update ctx version i s))
             = calls s @ [request ''/api/2/issuetype'' ''GET'' (JObject []) JUndefined]"
      by blast+
  next
    assume "issue_update_fields version (updateFields (getNodeParameter ctx i)) = Inr updated"
      and "js_includes subtaskIssues (get (updateFields (getNodeParameter ctx i)) ''issueType'')"
      and "get (updateFields (getNodeParameter ctx i)) ''parentIssueKey'' = JString k"
      and "k \<noteq> []"
    from issue_update_parent_given [OF this(1) lookup ids this(2,3,4), of s]
    show "\<exists>put. http_method put = ''PUT''
            \<and> member (member (body put) ''fields'') ''parent''
                = JObject [(''key'', JString (map toUpperCase_char k))]
            \<and> (if truthy (get (updateFields (getNodeParameter ctx i)) ''statusId'') then
                  \<exists>transition. http_method transition = ''POST''
                    \<and> (calls (snd (issue_update ctx version i s))
                         = calls s @ [request ''/api/2/issuetype'' ''GET'' (JObject [])
                                        JUndefined, transition, put]
                       \<or> fst (issue_update ctx version i s) = Inl NodeApiError
                         \<and> calls (snd (issue_update ctx version i s))
                           = calls s @ [request ''/api/2/issuetype'' ''GET'' (JObject [])
                                          JUndefined, transition])
                else calls (snd (issue_update ctx version i s))
                       = calls s @ [request ''/api/2/issuetype'' ''GET'' (JObject [])
                                      JUndefined, put])" .
  qed
qed

lemma jira_lookup:
  "\<forall>issued c. endpoint c = ''/api/2/issuetype''
     \<longrightarrow> jiraSoftwareCloudApiRequest (invocation ps jira) issued c = Some issue_types"
  by (simp add: invocation_def jira_def)

lemma jira_subtask_types: "subtaskIssues_of issue_types = Inr [JString ''10002'']"
  by (simp add: subtaskIssues_of_def issue_types_def bindE_def read_prop_def get_Cons)

theorem subtask_needs_parent_key_witness:
  "jiraSoftwareCloudApiRequest (invocation [create_subtask []] jira) []
     (request ''/api/2/issuetype'' ''GET'' (JObject []) (JObject [])) = Some issue_types
   \<and> subtaskIssues_of issue_types = Inr [JString ''10002'']
   \<and> js_includes [JString ''10002'']
        (JString (issueType (getNodeParameter (invocation [create_subtask []] jira) 0)))
   \<and> \<not> truthy (get (additionalFields (getNodeParameter (invocation [create_subtask []] jira) 0))
          ''parentIssueKey'')
   \<and> fst (issue_create (invocation [create_subtask []] jira) ''cloud'' 0 initial_state)
        = Inl (NodeOperationError
            ''You must define a Parent Issue Key when Issue type is sub-task'')
   \<and> (\<exists>q. calls (snd (issue_create (invocation [create_subtask []] jira) ''cloud'' 0
              initial_state))
          = calls initial_state @ [request ''/api/2/issuetype'' ''GET'' (JObject []) q])
   \<and> get (additionalFields (getNodeParameter
          (invocation [create_subtask [(''parentIssueKey'', JString ''proj-7'')]] jira) 0))
        ''parentIssueKey'' = JString ''proj-7''
   \<and> (\<exists>q c. calls (snd (issue_create
              (invocation [create_subtask [(''parentIssueKey'', JString ''proj-7'')]] jira)
              ''cloud'' 0 initial_state))
          = calls initial_state @ [request ''/api/2/issuetype'' ''GET'' (JObject []) q, c]
        \<and> http_method c = ''POST'' \<and> endpoint c = ''/api/2/issue''
        \<and> member (member (body c) ''fields'') ''parent''
            = JObject [(''key'', JString ''PROJ-7'')])
   \<and> js_includes [JString ''10002'']
        (get (updateFields (getNodeParameter (invocation [update_to_subtask []] jira) 0))
           ''issueType'')
   \<and> \<not> truthy (get (updateFields (getNodeParameter (invocation [update_to_subtask []] jira) 0))
          ''parentIssueKey'')
   \<and> fst (issue_update (invocation [update_to_subtask []] jira) ''cloud'' 0 initial_state)
        = Inl (NodeOperationError
            ''You must define a Parent Issue Key when Issue type is sub-task'')
   \<and> calls (snd (issue_update (invocation [update_to_subtask []] jira) ''cloud'' 0
          initial_state))
        = calls initial_state @ [request ''/api/2/issuetype'' ''GET'' (JObject []) JUndefined]
   \<and> get (updateFields (getNodeParameter
          (invocation [update_to_subtask [(''parentIssueKey'', JString ''proj-7'')]] jira) 0))
        ''parentIssueKey'' = JString ''proj-7''
   \<and> (\<exists>put. http_method put = ''PUT''
        \<and> member (member (body put) ''fields'') ''parent''
            = JObject [(''key'', JString ''PROJ-7'')]
        \<and> calls (snd (issue_update
              (invocation [update_to_subtask [(''parentIssueKey'', JString ''proj-7'')]] jira)
              ''cloud'' 0 initial_state))
          = calls initial_state @ [request ''/api/2/issuetype'' ''GET'' (JObject []) JUndefined,
                                   put])"
proof -
  let ?c0 = "invocation [create_subtask []] jira"
  let ?c1 = "invocation [create_subtask [(''parentIssueKey'', JString ''proj-7'')]] jira"
  let ?u0 = "invocation [update_to_subtask []] jira"
  let ?u1 = "invocation [update_to_subtask [(''parentIssueKey'', JString ''proj-7'')]] jira"
  note defs = invocation_def create_subtask_def update_to_subtask_def no_parameters_def
    get_Cons get_Nil
  have upper: "map toUpperCase_char ''proj-7'' = ''PROJ-7''"
    by (simp add: toUpperCase_char_def)
  have inc0: "js_includes [JString ''10002''] (JString (issueType (getNodeParameter ?c0 0)))"
    and inc1: "js_includes [JString ''10002''] (JString (issueType (getNodeParameter ?c1 0)))"
    and incu0: "js_includes [JString ''10002''] (get (updateFields (getNodeParameter ?u0 0))
                  ''issueType'')"
    and incu1: "js_includes [JString ''10002''] (get (updateFields (getNodeParameter ?u1 0))
                  ''issueType'')"
    by (simp_all add: defs js_includes_def)
  have pk0: "\<not> truthy (get (additionalFields (getNodeParameter ?c0 0)) ''parentIssueKey'')"
    and pku0: "\<not> truthy (get (updateFields (getNodeParameter ?u0 0)) ''parentIssueKey'')"
    and pk1: "get (additionalFields (getNodeParameter ?c1 0)) ''parentIssueKey''
              = JString ''proj-7''"
    and pku1: "get (updateFields (getNodeParameter ?u1 0)) ''parentIssueKey''
               = JString ''proj-7''"
    and st1: "\<not> truthy (get (updateFields (getNodeParameter ?u1 0)) ''statusId'')"
    by (simp_all add: defs)
  have ne: "''proj-7'' \<noteq> []"
    by simp
  obtain f0 where f0: "issue_create_fields ''cloud'' (getNodeParameter ?c0 0) = Inr f0"
    by (simp add: defs issue_create_fields_def add_components_def add_customFields_def
        Let_def when_def bindE_def)
  obtain f1 where f1: "issue_create_fields ''cloud'' (getNodeParameter ?c1 0) = Inr f1"
    by (simp add: defs issue_create_fields_def add_components_def add_customFields_def
        Let_def when_def bindE_def)
  obtain g0 where g0: "issue_update_fields ''cloud'' (updateFields (getNodeParameter ?u0 0))
                       = Inr g0"
    by (simp add: defs issue_update_fields_def add_customFields_def Let_def when_def)
  obtain g1 where g1: "issue_update_fields ''cloud'' (updateFields (getNodeParameter ?u1 0))
                       = Inr g1"
    by (simp add: defs issue_update_fields_def add_customFields_def Let_def when_def)
  from subtask_needs_parent_key [OF jira_lookup [of "[create_subtask []]"] jira_subtask_types,
      where version = "''cloud''" and i = 0 and created = f0 and s = initial_state] f0 inc0 pk0
  have a: "fst (issue_create ?c0 ''cloud'' 0 initial_state)
        = Inl (NodeOperationError
            ''You must define a Parent Issue Key when Issue type is sub-task'')"
    "\<exists>q. calls (snd (issue_create ?c0 ''cloud'' 0 initial_state))
          = calls initial_state @ [request ''/api/2/issuetype'' ''GET'' (JObject []) q]"
    by blast+
  from subtask_needs_parent_key
      [OF jira_lookup [of "[create_subtask [(''parentIssueKey'', JString ''proj-7'')]]"]
        jira_subtask_types,
      where version = "''cloud''" and i = 0 and created = f1 and k = "''proj-7''"
        and s = initial_state] f1 inc1 pk1 ne
  have b: "\<exists>q c. calls (snd (issue_create ?c1 ''cloud'' 0 initial_state))
          = calls initial_state @ [request ''/api/2/issuetype'' ''GET'' (JObject []) q, c]
        \<and> http_method c = ''POST'' \<and> endpoint c = ''/api/2/issue''
        \<and> member (member (body c) ''fields'') ''parent''
            = JObject [(''key'', JString ''PROJ-7'')]"
    unfolding upper by blast
  from subtask_needs_parent_key [OF jira_lookup [of "[update_to_subtask []]"] jira_subtask_types,
      where version = "''cloud''" and i = 0 and updated = g0 and s = initial_state]
    g0 incu0 pku0
  have c: "fst (issue_update ?u0 ''cloud'' 0 initial_state)
        = Inl (NodeOperationError
            ''You must define a Parent Issue Key when Issue type is sub-task'')"
    "calls (snd (issue_update ?u0 ''cloud'' 0 initial_state))
        = calls initial_state @ [request ''/api/2/issuetype'' ''GET'' (JObject []) JUndefined]"
    by blast+
  from subtask_needs_parent_key
      [OF jira_lookup [of "[update_to_subtask [(''parentIssueKey'', JString ''proj-7'')]]"]
        jira_subtask_types,
      where version = "''cloud''" and i = 0 and updated = g1 and k = "''proj-7''"
        and s = initial_state] g1 incu1 pku1 ne st1
  have d: "\<exists>put. http_method put = ''PUT''
        \<and> member (member (body put) ''fields'') ''parent''
            = JObject [(''key'', JString ''PROJ-7'')]
        \<and> calls (snd (issue_update ?u1 ''cloud'' 0 initial_state))
          = calls initial_state @ [request ''/api/2/issuetype'' ''GET'' (JObject []) JUndefined,
                                   put]"
    unfolding upper by (auto simp: st1)
  have l: "jiraSoftwareCloudApiRequest ?c0 []
     (request ''/api/2/issuetype'' ''GET'' (JObject []) (JObject [])) = Some issue_types"
    using jira_lookup [of "[create_subtask []]"] by (simp add: request_sel)
  from l jira_subtask_types inc0 pk0 a pk1 b incu0 pku0 c pku1 d
  show ?thesis
    by blast
qed

section \<open>The query string is shared by the items\<close>

text \<open>
  Claim C6 fails on the code. \<open>qs\<close> is declared once, before the loops, and issue get only
  ever adds to it: the first item asks for the field \<open>summary\<close>, the second sets no field,
  and the request of the second item still carries \<open>fields = summary\<close>.
\<close>

theorem query_string_leaks_to_next_item:
  "execute (invocation [get_issue ''PROJ-1'' [(''fields'', JString ''summary'')],
                        get_issue ''PROJ-2'' []] accept)
     = (Inr [JObject [], JObject []],
        [request ''/api/2/issue/PROJ-1'' ''GET'' (JObject [])
           (JObject [(''fields'', JString ''summary'')]),
         request ''/api/2/issue/PROJ-2'' ''GET'' (JObject [])
           (JObject [(''fields'', JString ''summary'')])])"
  by code_simp

section \<open>Limits\<close>

lemma read_prop_member:
  "member v k = JArray xs \<Longrightarrow> read_prop v k = Inr (JArray xs)"
  by (cases v) (simp_all add: read_prop_def)

lemma member_JArray_object:
  "member v k = JArray xs \<Longrightarrow> read_prop v k' = Inr (member v k')"
  by (cases v) (simp_all add: read_prop_def)

lemma issueAttachment_getAll_limited:
  assumes "returnAll (getNodeParameter ctx i) = False"
    and "jiraSoftwareCloudApiRequest ctx (calls s)
           (request (''/api/2/issue/'' @ issueKey (getNodeParameter ctx i)) ''GET''
              (JObject []) (JObject (qs s))) = Some response"
    and "member (member response ''fields'') ''attachment'' = JArray xs"
    and "0 \<le> limit (getNodeParameter ctx i)"
  shows "fst (issueAttachment_getAll ctx i s) = Inr ()"
    and "returnData (snd (issueAttachment_getAll ctx i s))
           = returnData s @ map (\<lambda>data. JObject [(''json'', data)])
                              (take (nat (limit (getNodeParameter ctx i))) xs)"
proof -
  from assms(3) have f: "read_prop response ''fields'' = Inr (member response ''fields'')"
    by (cases response) (simp_all add: read_prop_def)
  note a = read_prop_member [OF assms(3)]
  show "fst (issueAttachment_getAll ctx i s) = Inr ()"
    and "returnData (snd (issueAttachment_getAll ctx i s))
           = returnData s @ map (\<lambda>data. JObject [(''json'', data)])
                              (take (nat (limit (getNodeParameter ctx i))) xs)"
    using assms(1,2,4)
    by (simp_all add: issueAttachment_getAll_def Let_def exec_simps f a slice_def slice_0_def
        push_def)
qed

lemma issue_getAll_limited:
  assumes "returnAll (getNodeParameter ctx i) = False"
    and "issue_getAll_body (options (getNodeParameter ctx i)) = Inr b"
    and "jiraSoftwareCloudApiRequest ctx (calls s)
           (request ''/api/2/search'' ''POST''
              (JObject (AList.update ''maxResults'' (JNum (limit (getNodeParameter ctx i))) b))
              JUndefined) = Some response"
    and "member response ''issues'' = JArray ys"
  shows "fst (issue_getAll ctx i s) = Inr ()"
    and "returnData (snd (issue_getAll ctx i s)) = returnData s @ ys"
  using assms(1-3) read_prop_member [OF assms(4)]
  by (simp_all add: issue_getAll_def Let_def exec_simps bindX_assoc push_def)

text \<open>
  Claim C5, as amended. With "return all" off and a limit \<open>L \<ge> 0\<close>: issue attachment getAll
  adds to the output the first \<open>L\<close> entries of the fetched attachment list, so
  \<open>min L total\<close> records; issue getAll sends \<open>L\<close> as \<open>maxResults\<close> and adds the \<open>issues\<close>
  array of the answer as it is, whatever its length.
\<close>

theorem limit_truncates_attachments_only:
  assumes "returnAll (getNodeParameter ctx i) = False"
  shows "(jiraSoftwareCloudApiRequest ctx (calls s)
            (request (''/api/2/issue/'' @ issueKey (getNodeParameter ctx i)) ''GET''
               (JObject []) (JObject (qs s))) = Some fetched
          \<and> member (member fetched ''fields'') ''attachment'' = JArray xs
          \<and> 0 \<le> limit (getNodeParameter ctx i)
          \<longrightarrow> fst (issueAttachment_getAll ctx i s) = Inr ()
              \<and> returnData (snd (issueAttachment_getAll ctx i s))
                  = returnData s @ map (\<lambda>data. JObject [(''json'', data)])
                                     (take (nat (limit (getNodeParameter ctx i))) xs)
              \<and> length (returnData (snd (issueAttachment_getAll ctx i s)))
                  = length (returnData s)
                    + min (nat (limit (getNodeParameter ctx i))) (length xs))
       \<and> (issue_getAll_body (options (getNodeParameter ctx i)) = Inr b
          \<and> jiraSoftwareCloudApiRequest ctx (calls s)
              (request ''/api/2/search'' ''POST''
                 (JObject (AList.update ''maxResults'' (JNum (limit (getNodeParameter ctx i))) b))
                 JUndefined) = Some found
          \<and> member found ''issues'' = JArray ys
          \<longrightarrow> fst (issue_getAll ctx i s) = Inr ()
              \<and> returnData (snd (issue_getAll ctx i s)) = returnData s @ ys)"
proof (intro conjI impI; (elim conjE)?)
  assume a: "jiraSoftwareCloudApiRequest ctx (calls s)
            (request (''/api/2/issue/'' @ issueKey (getNodeParameter ctx i)) ''GET''
               (JObject []) (JObject (qs s))) = Some fetched"
    "member (member fetched ''fields'') ''attachment'' = JArray xs"
    "0 \<le> limit (getNodeParameter ctx i)"
  note r = issueAttachment_getAll_limited [OF assms a]
  show "fst (issueAttachment_getAll ctx i s) = Inr ()"
    by (rule r(1))
  show "returnData (snd (issueAttachment_getAll ctx i s))
          = returnData s @ map (\<lambda>data. JObject [(''json'', data)])
                             (take (nat (limit (getNodeParameter ctx i))) xs)"
    by (rule r(2))
  show "length (returnData (snd (issueAttachment_getAll ctx i s)))
          = length (returnData s) + min (nat (limit (getNodeParameter ctx i))) (length xs)"
    by (simp add: r(2) min.commute)
next
  assume a: "issue_getAll_body (options (getNodeParameter ctx i)) = Inr b"
    "jiraSoftwareCloudApiRequest ctx (calls s)
              (request ''/api/2/search'' ''POST''
                 (JObject (AList.update ''maxResults'' (JNum (limit (getNodeParameter ctx i))) b))
                 JUndefined) = Some found"
    "member found ''issues'' = JArray ys"
  note r = issue_getAll_limited [OF assms a]
  show "fst (issue_getAll ctx i s) = Inr ()"
    by (rule r(1))
  show "returnData (snd (issue_getAll ctx i s)) = returnData s @ ys"
    by (rule r(2))
qed

theorem limit_truncates_attachments_only_witness:
  "returnAll (getNodeParameter (invocation [attachments_2] attachment_jira) 0) = False
   \<and> limit (getNodeParameter (invocation [attachments_2] attachment_jira) 0) = 2
   \<and> member (member issue_with_3_attachments ''fields'') ''attachment''
       = JArray [JObject [(''id'', JString ''1'')], JObject [(''id'', JString ''2'')],
                 JObject [(''id'', JString ''3'')]]
   \<and> returnData (snd (issueAttachment_getAll (invocation [attachments_2] attachment_jira) 0
        initial_state))
       = [JObject [(''json'', JObject [(''id'', JString ''1'')])],
          JObject [(''json'', JObject [(''id'', JString ''2'')])]]
   \<and> returnAll (getNodeParameter (invocation [search_3] capped_jira) 0) = False
   \<and> issue_getAll_body (options (getNodeParameter (invocation [search_3] capped_jira) 0)) = Inr []
   \<and> member capped_page ''issues''
       = JArray [JObject [(''key'', JString ''PROJ-1'')], JObject [(''key'', JString ''PROJ-2'')]]
   \<and> returnData (snd (issue_getAll (invocation [search_3] capped_jira) 0 initial_state))
       = [JObject [(''key'', JString ''PROJ-1'')], JObject [(''key'', JString ''PROJ-2'')]]"
proof -
  let ?a = "invocation [attachments_2] attachment_jira"
  let ?b = "invocation [search_3] capped_jira"
  have ra: "returnAll (getNodeParameter ?a 0) = False"
    and la: "limit (getNodeParameter ?a 0) = 2"
    and la0: "0 \<le> limit (getNodeParameter ?a 0)"
    and fa: "jiraSoftwareCloudApiRequest ?a (calls initial_state)
            (request (''/api/2/issue/'' @ issueKey (getNodeParameter ?a 0)) ''GET''
               (JObject []) (JObject (qs initial_state))) = Some issue_with_3_attachments"
    by (simp_all add: invocation_def attachments_2_def no_parameters_def attachment_jira_def)
  have xs: "member (member issue_with_3_attachments ''fields'') ''attachment''
       = JArray [JObject [(''id'', JString ''1'')], JObject [(''id'', JString ''2'')],
                 JObject [(''id'', JString ''3'')]]"
    by (simp add: issue_with_3_attachments_def get_Cons)
  have rb: "returnAll (getNodeParameter ?b 0) = False"
    and bb: "issue_getAll_body (options (getNodeParameter ?b 0)) = Inr []"
    by (simp_all add: invocation_def search_3_def no_parameters_def issue_getAll_body_def
        get_Nil bindE_def when_def)
  have fb: "jiraSoftwareCloudApiRequest ?b (calls initial_state)
              (request ''/api/2/search'' ''POST''
                 (JObject (AList.update ''maxResults'' (JNum (limit (getNodeParameter ?b 0))) []))
                 JUndefined) = Some capped_page"
    by (simp add: invocation_def capped_jira_def request_sel)
  have ys: "member capped_page ''issues''
       = JArray [JObject [(''key'', JString ''PROJ-1'')], JObject [(''key'', JString ''PROJ-2'')]]"
    by (simp add: capped_page_def get_Cons)
  from limit_truncates_attachments_only [OF ra, where s = initial_state
      and fetched = issue_with_3_attachments] fa xs la0
  have 1: "returnData (snd (issueAttachment_getAll ?a 0 initial_state))
       = [JObject [(''json'', JObject [(''id'', JString ''1'')])],
          JObject [(''json'', JObject [(''id'', JString ''2'')])]]"
    by (simp add: la initial_state_def)
  from limit_truncates_attachments_only [OF rb, where s = initial_state and b = "[]"
      and found = capped_page] bb fb ys
  have 2: "returnData (snd (issue_getAll ?b 0 initial_state))
       = [JObject [(''key'', JString ''PROJ-1'')], JObject [(''key'', JString ''PROJ-2'')]]"
    by (simp add: initial_state_def)
  from ra la xs 1 rb bb ys 2 show ?thesis
    by blast
qed

text \<open>
  Claim C5 as stated fails for issue getAll: with limit 3 against a Jira that reports
  five matching issues and returns pages of two, the output has two records, not
  \<open>min 3 5\<close>.
\<close>

theorem search_limit_is_left_to_the_server:
  "limit search_3 = 3
   \<and> member capped_page ''total'' = JNum 5
   \<and> execute (invocation [search_3] capped_jira)
       = (Inr [JObject [(''key'', JString ''PROJ-1'')], JObject [(''key'', JString ''PROJ-2'')]],
          [request ''/api/2/search'' ''POST'' (JObject [(''maxResults'', JNum 3)]) JUndefined])"
  by code_simp

section \<open>Where the validation errors are raised\<close>

lemma customFields_reduce_error:
  "customFields_reduce xs obj = Inl e \<Longrightarrow> e = TypeError"
  by (induction xs arbitrary: obj)
    (auto simp: bindE_def read_prop_def split: sum.splits if_splits)

lemma add_customFields_error: "add_customFields collected issue_fields = Inl e \<Longrightarrow> e = TypeError"
proof -
  assume a: "add_customFields collected issue_fields = Inl e"
  have r: "\<And>v. reduce v = Inl e \<Longrightarrow> e = TypeError"
    subgoal for v by (cases v) (auto dest: customFields_reduce_error)
    done
  from a show ?thesis
    by (auto simp: add_customFields_def Let_def bindE_def split: if_splits sum.splits dest: r)
qed

lemma js_map_error: "js_map f v = Inl e \<Longrightarrow> e = TypeError"
  by (cases v) auto

lemma add_components_error: "add_components collected issue_fields = Inl e \<Longrightarrow> e = TypeError"
  by (auto simp: add_components_def bindE_def split: if_splits sum.splits dest: js_map_error)

lemma issue_create_fields_error: "issue_create_fields version p = Inl e \<Longrightarrow> e = TypeError"
  by (auto simp: issue_create_fields_def Let_def bindE_def split: sum.splits
      dest: add_components_error add_customFields_error)

lemma issue_update_fields_error: "issue_update_fields version collected = Inl e \<Longrightarrow> e = TypeError"
  by (auto simp: issue_update_fields_def Let_def dest: add_customFields_error)

lemma subtask_loop_error: "subtask_loop ts acc = Inl e \<Longrightarrow> e = TypeError"
  by (induction ts arbitrary: acc)
    (auto simp: bindE_def read_prop_def split: sum.splits if_splits)

lemma subtaskIssues_of_error: "subtaskIssues_of issueTypes = Inl e \<Longrightarrow> e = TypeError"
  by (cases issueTypes)
    (auto simp: subtaskIssues_of_def bindE_def dest: subtask_loop_error)

lemma check_parent_error:
  "check_parent parentIssueKey subtaskIssues issueTypeId issue_fields = Inl e \<Longrightarrow>
     e = NodeOperationError ''You must define a Parent Issue Key when Issue type is sub-task''
     \<or> e = TypeError"
  by (cases parentIssueKey) (auto simp: check_parent_def bindE_def split: if_splits)

lemma bindX_lift:
  "bindX (lift r) f s = (case r of Inl e \<Rightarrow> (Inl e, s) | Inr x \<Rightarrow> f x s)"
  by (simp add: bindX_def lift_def split: sum.splits)

lemmas run_simps =
  bindX_return bindX_throw bindX_lift bindX_modify_qs bindX_get_qs bindX_request

lemma issue_create_validation:
  assumes "issue_create ctx version i s = (Inl (NodeOperationError m), s')"
  shows "m = ''You must define a Parent Issue Key when Issue type is sub-task''
         \<and> (\<exists>q. calls s' = calls s @ [request ''/api/2/issuetype'' ''GET'' (JObject []) q])"
  using assms
  by (auto simp: issue_create_def Let_def run_simps throw_def push_def
      split: sum.splits option.splits
      dest: issue_create_fields_error subtaskIssues_of_error check_parent_error)

lemma issue_update_validation:
  assumes "issue_update ctx version i s = (Inl (NodeOperationError m), s')"
  shows "m = ''You must define a Parent Issue Key when Issue type is sub-task''
         \<and> calls s' = calls s @ [request ''/api/2/issuetype'' ''GET'' (JObject []) JUndefined]"
  using assms
  by (auto simp: issue_update_def Let_def run_simps bindX_assoc throw_def push_def
      split: sum.splits option.splits if_splits
      dest: issue_update_fields_error subtaskIssues_of_error check_parent_error)

lemma issueComment_add_validation:
  assumes "issueComment_add ctx version i s = (Inl (NodeOperationError m), s')"
  shows "m = ''Document Format must be a valid JSON'' \<and> calls s' = calls s"
  using assms
  by (auto simp: issueComment_add_def Let_def run_simps throw_def push_def
      split: option.splits if_splits)

lemma issueComment_update_validation:
  assumes "issueComment_update ctx version i s = (Inl (NodeOperationError m), s')"
  shows "m = ''Document Format must be a valid JSON'' \<and> calls s' = calls s"
  using assms
  by (auto simp: issueComment_update_def Let_def run_simps throw_def push_def
      split: option.splits if_splits)

lemma apply_arguments_error:
  "apply_arguments v = Inl e \<Longrightarrow> e = TypeError \<or> e = Unmodelled"
  by (cases v) (auto split: json.splits)

lemma issueAttachment_add_validation:
  assumes "issueAttachment_add ctx apiVersion i s = (Inl (NodeOperationError m), s')"
  shows "calls s' = calls s"
  using assms
  by (auto simp: issueAttachment_add_def Let_def run_simps throw_def push_def helper_def
      bindX_def api_def lift_def read_prop_def
      split: option.splits if_splits sum.splits prod.splits
      dest: apply_arguments_error)

lemma for_loop_aborts:
  assumes "f i s = (Inl e, s')"
  shows "for_loop f (i # rest) s = (Inl e, s')"
  using assms by (simp add: bindX_def)

text \<open>
  Claim C2, as amended. The sub-task validation error of issue create and issue update
  is raised after the issue-type lookup of the item, which is the only call issued for
  it, so before its POST or PUT. The invalid-JSON error of comment add and update, and
  the missing-binary-data errors of attachment add, are raised before any call for the
  item. An error raised for an item ends the loop over the items: no later item is
  processed.
\<close>

theorem validation_errors_before_mutation:
  "(issue_create ctx version i s = (Inl (NodeOperationError m), s')
      \<longrightarrow> m = ''You must define a Parent Issue Key when Issue type is sub-task''
          \<and> (\<exists>q. calls s' = calls s @ [request ''/api/2/issuetype'' ''GET'' (JObject []) q]))
   \<and> (issue_update ctx version i s = (Inl (NodeOperationError m), s')
      \<longrightarrow> m = ''You must define a Parent Issue Key when Issue type is sub-task''
          \<and> calls s' = calls s @ [request ''/api/2/issuetype'' ''GET'' (JObject []) JUndefined])
   \<and> (issueComment_add ctx version i s = (Inl (NodeOperationError m), s')
      \<longrightarrow> m = ''Document Format must be a valid JSON'' \<and> calls s' = calls s)
   \<and> (issueComment_update ctx version i s = (Inl (NodeOperationError m), s')
      \<longrightarrow> m = ''Document Format must be a valid JSON'' \<and> calls s' = calls s)
   \<and> (issueAttachment_add ctx apiVersion i s = (Inl (NodeOperationError m), s')
      \<longrightarrow> calls s' = calls s)
   \<and> (f i s = (Inl e, s') \<longrightarrow> for_loop f (i # later) s = (Inl e, s'))"
  using issue_create_validation [of ctx version i s m s']
    issue_update_validation [of ctx version i s m s']
    issueComment_add_validation [of ctx version i s m s']
    issueComment_update_validation [of ctx version i s m s']
    issueAttachment_add_validation [of ctx apiVersion i s m s']
    for_loop_aborts [of f i s e s' later]
  by blast

lemma create_subtask_run:
  "issue_create (invocation [create_subtask [],
                   create_subtask [(''parentIssueKey'', JString ''proj-7'')]] jira)
     ''cloud'' 0 initial_state
   = (Inl (NodeOperationError
        ''You must define a Parent Issue Key when Issue type is sub-task''),
      \<lparr>calls = [request ''/api/2/issuetype'' ''GET'' (JObject []) (JObject [])], qs = [],
       returnData = []\<rparr>)"
  by code_simp

lemma update_to_subtask_run:
  "issue_update (invocation [update_to_subtask []] jira) ''cloud'' 0 initial_state
   = (Inl (NodeOperationError
        ''You must define a Parent Issue Key when Issue type is sub-task''),
      \<lparr>calls = [request ''/api/2/issuetype'' ''GET'' (JObject []) JUndefined], qs = [],
       returnData = []\<rparr>)"
  by code_simp

lemma raw_comment_add_run:
  "issueComment_add (invocation [raw_comment None] accept) ''cloud'' 0 initial_state
   = (Inl (NodeOperationError ''Document Format must be a valid JSON''), initial_state)"
  by code_simp

lemma raw_comment_update_run:
  "issueComment_update (invocation [raw_comment None] accept) ''cloud'' 0 initial_state
   = (Inl (NodeOperationError ''Document Format must be a valid JSON''), initial_state)"
  by code_simp

lemma add_attachment_run:
  "issueAttachment_add (invocation [add_attachment] accept) ''3'' 0 initial_state
   = (Inl (NodeOperationError ''No binary data exists on item!''), initial_state)"
  by code_simp

theorem validation_errors_before_mutation_witness:
  "issue_create (invocation [create_subtask [],
                   create_subtask [(''parentIssueKey'', JString ''proj-7'')]] jira)
     ''cloud'' 0 initial_state
   = (Inl (NodeOperationError
        ''You must define a Parent Issue Key when Issue type is sub-task''),
      \<lparr>calls = [request ''/api/2/issuetype'' ''GET'' (JObject []) (JObject [])], qs = [],
       returnData = []\<rparr>)
   \<and> (\<exists>q. calls \<lparr>calls = [request ''/api/2/issuetype'' ''GET'' (JObject []) (JObject [])],
                    qs = [], returnData = []\<rparr>
          = calls initial_state @ [request ''/api/2/issuetype'' ''GET'' (JObject []) q])
   \<and> for_loop (issue_create (invocation [create_subtask [],
                   create_subtask [(''parentIssueKey'', JString ''proj-7'')]] jira) ''cloud'')
        [0, 1] initial_state
      = (Inl (NodeOperationError
           ''You must define a Parent Issue Key when Issue type is sub-task''),
         \<lparr>calls = [request ''/api/2/issuetype'' ''GET'' (JObject []) (JObject [])], qs = [],
          returnData = []\<rparr>)
   \<and> issue_update (invocation [update_to_subtask []] jira) ''cloud'' 0 initial_state
      = (Inl (NodeOperationError
           ''You must define a Parent Issue Key when Issue type is sub-task''),
         \<lparr>calls = [request ''/api/2/issuetype'' ''GET'' (JObject []) JUndefined], qs = [],
          returnData = []\<rparr>)
   \<and> calls \<lparr>calls = [request ''/api/2/issuetype'' ''GET'' (JObject []) JUndefined], qs = [],
          returnData = []\<rparr>
      = calls initial_state @ [request ''/api/2/issuetype'' ''GET'' (JObject []) JUndefined]
   \<and> issueComment_add (invocation [raw_comment None] accept) ''cloud'' 0 initial_state
      = (Inl (NodeOperationError ''Document Format must be a valid JSON''), initial_state)
   \<and> issueComment_update (invocation [raw_comment None] accept) ''cloud'' 0 initial_state
      = (Inl (NodeOperationError ''Document Format must be a valid JSON''), initial_state)
   \<and> issueAttachment_add (invocation [add_attachment] accept) ''3'' 0 initial_state
      = (Inl (NodeOperationError ''No binary data exists on item!''), initial_state)"
proof -
  note t = validation_errors_before_mutation
  from t [where ctx = "invocation [create_subtask [],
                   create_subtask [(''parentIssueKey'', JString ''proj-7'')]] jira"
      and version = "''cloud''" and i = 0 and s = initial_state
      and f = "issue_create (invocation [create_subtask [],
                   create_subtask [(''parentIssueKey'', JString ''proj-7'')]] jira) ''cloud''"
      and later = "[1]"] create_subtask_run
  have a: "\<exists>q. calls \<lparr>calls = [request ''/api/2/issuetype'' ''GET'' (JObject []) (JObject [])],
                    qs = [], returnData = []\<rparr>
          = calls initial_state @ [request ''/api/2/issuetype'' ''GET'' (JObject []) q]"
    and e: "for_loop (issue_create (invocation [create_subtask [],
                   create_subtask [(''parentIssueKey'', JString ''proj-7'')]] jira) ''cloud'')
        [0, 1] initial_state
      = (Inl (NodeOperationError
           ''You must define a Parent Issue Key when Issue type is sub-task''),
         \<lparr>calls = [request ''/api/2/issuetype'' ''GET'' (JObject []) (JObject [])], qs = [],
          returnData = []\<rparr>)"
    by blast+
  from t [where ctx = "invocation [update_to_subtask []] jira" and version = "''cloud''"
      and i = 0 and s = initial_state] update_to_subtask_run
  have b: "calls \<lparr>calls = [request ''/api/2/issuetype'' ''GET'' (JObject []) JUndefined], qs = [],
          returnData = []\<rparr>
      = calls initial_state @ [request ''/api/2/issuetype'' ''GET'' (JObject []) JUndefined]"
    by blast
  from create_subtask_run a e update_to_subtask_run b raw_comment_add_run
    raw_comment_update_run add_attachment_run
  show ?thesis
    by blast
qed

text \<open>
  Claim C2 as stated fails on the code. The first item creates a sub-task without a
  parent key: the validation error comes after a call for that item, the issue-type
  lookup, and it ends \<open>execute\<close>, so the second item, which is well-formed, is never
  processed.
\<close>

theorem subtask_error_follows_lookup_and_ends_batch:
  "execute (invocation [create_subtask [],
              create_subtask [(''parentIssueKey'', JString ''proj-7'')]] jira)
   = (Inl (NodeOperationError
        ''You must define a Parent Issue Key when Issue type is sub-task''),
      [request ''/api/2/issuetype'' ''GET'' (JObject []) (JObject [])])"
  by code_simp

section \<open>Sparse updates\<close>

lemma truthy_present: "truthy (get obj k) \<Longrightarrow> k \<in> fst ` set obj"
  by (cases "map_of obj k") (auto simp: get_def dest: map_of_SomeD intro: rev_image_eqI)

lemma update_base_keys:
  assumes "map_of
     (when (truthy (get collected ''description''))
        (AList.update ''description'' (get collected ''description''))
     (when (truthy (get collected ''reporter''))
        (AList.update ''reporter'' (JObject [(''id'', get collected ''reporter'')]))
     (when (truthy (get collected ''assignee''))
        (AList.update ''assignee''
           (if version = ''server'' then JObject [(''name'', get collected ''assignee'')]
            else JObject [(''id'', get collected ''assignee'')]))
     (when (truthy (get collected ''priority''))
        (AList.update ''priority'' (JObject [(''id'', get collected ''priority'')]))
     (when (truthy (get collected ''serverLabels''))
        (AList.update ''labels'' (get collected ''serverLabels''))
     (when (truthy (get collected ''labels''))
        (AList.update ''labels'' (get collected ''labels''))
     (when (truthy (get collected ''issueType''))
        (AList.update ''issuetype'' (JObject [(''id'', get collected ''issueType'')]))
     (when (truthy (get collected ''summary''))
        (AList.update ''summary'' (get collected ''summary'')) [])))))))) k = Some v"
  shows "(\<exists>src \<in> set (field_sources k). truthy (get collected src)) \<and> v \<noteq> JNull"
  using assms
  by (auto simp: map_of_when_update field_sources_def split: if_splits)

lemma customFields_reduce_keys:
  "customFields_reduce xs obj = Inr data \<Longrightarrow>
     fst ` set data \<subseteq> fst ` set obj \<union> (\<lambda>entry. to_string (member entry ''fieldId'')) ` set xs"
proof (induction xs arbitrary: obj)
  case Nil
  then show ?case by simp
next
  case (Cons x xs)
  from Cons.prems obtain fieldValue where
    rest: "customFields_reduce xs
             (AList.update (to_string (member x ''fieldId'')) fieldValue obj) = Inr data"
    by (auto simp: bindE_def read_prop_def split: if_splits)
  from Cons.IH [OF rest] show ?case
    by (auto simp: dom_update)
qed

lemma Object_assign_keys:
  "fst ` set (Object_assign target source) = fst ` set target \<union> fst ` set source"
  unfolding Object_assign_def
proof (induction source arbitrary: target)
  case Nil
  show ?case by simp
next
  case (Cons kv source)
  obtain k v where kv: "kv = (k, v)" by (cases kv)
  have "fst ` set (AList.update k v target) = insert k (fst ` set target)"
    by (simp add: dom_update)
  with Cons.IH [of "AList.update k v target"] kv show ?case
    by simp
qed

lemma Object_assign_other:
  "k \<notin> fst ` set source \<Longrightarrow> map_of (Object_assign target source) k = map_of target k"
  unfolding Object_assign_def
  by (induction source arbitrary: target) (auto simp: update_conv')

lemma add_customFields_keys:
  assumes "add_customFields collected base = Inr built"
  shows "fst ` set built \<subseteq> fst ` set base \<union> set (custom_field_keys collected)"
    and "k \<notin> set (custom_field_keys collected) \<Longrightarrow> map_of built k = map_of base k"
proof -
  let ?entries = "member (get collected ''customFieldsUi'') ''customFieldsValues''"
  have "fst ` set built \<subseteq> fst ` set base \<union> set (custom_field_keys collected)
        \<and> (k \<notin> set (custom_field_keys collected) \<longrightarrow> map_of built k = map_of base k)"
  proof (cases "truthy (get collected ''customFieldsUi'') \<and> truthy ?entries")
    case False
    with assms have "built = base"
      by (auto simp: add_customFields_def Let_def split: if_splits)
    then show ?thesis by simp
  next
    case True
    with assms obtain data where d: "reduce ?entries = Inr data"
      and b: "built = Object_assign base data"
      by (auto simp: add_customFields_def Let_def bindE_def split: sum.splits)
    from d obtain xs where xs: "?entries = JArray xs" and r: "customFields_reduce xs [] = Inr data"
      by (cases ?entries) auto
    from customFields_reduce_keys [OF r] xs
    have "fst ` set data \<subseteq> set (custom_field_keys collected)"
      by (simp add: custom_field_keys_def)
    then have "k \<notin> set (custom_field_keys collected) \<Longrightarrow> k \<notin> fst ` set data"
      and "fst ` set (Object_assign base data)
             \<subseteq> fst ` set base \<union> set (custom_field_keys collected)"
      by (auto simp: Object_assign_keys)
    with b show ?thesis
      by (simp add: Object_assign_other)
  qed
  then show "fst ` set built \<subseteq> fst ` set base \<union> set (custom_field_keys collected)"
    and "k \<notin> set (custom_field_keys collected) \<Longrightarrow> map_of built k = map_of base k"
    by blast+
qed

lemma issue_update_fields_sparse:
  assumes "issue_update_fields version collected = Inr built"
  shows "k \<in> fst ` set built \<Longrightarrow>
           (\<exists>src \<in> set (field_sources k). truthy (get collected src))
           \<or> k \<in> set (custom_field_keys collected)"
    and "map_of built k = Some JNull \<Longrightarrow> k \<in> set (custom_field_keys collected)"
proof -
  from assms obtain base where
    c: "add_customFields collected base = Inr built"
    and base: "\<And>k v. map_of base k = Some v \<Longrightarrow>
             (\<exists>src \<in> set (field_sources k). truthy (get collected src)) \<and> v \<noteq> JNull"
    unfolding issue_update_fields_def Let_def
    using update_base_keys [of collected version] by blast
  note keys = add_customFields_keys [OF c]
  show "k \<in> fst ` set built \<Longrightarrow>
           (\<exists>src \<in> set (field_sources k). truthy (get collected src))
           \<or> k \<in> set (custom_field_keys collected)"
  proof -
    assume "k \<in> fst ` set built"
    with keys(1) have "k \<in> fst ` set base \<or> k \<in> set (custom_field_keys collected)"
      by blast
    then show ?thesis
    proof
      assume "k \<in> fst ` set base"
      then obtain v where "map_of base k = Some v"
        by (cases "map_of base k") (auto simp: map_of_eq_None_iff)
      from base [OF this] show ?thesis by blast
    qed blast
  qed
  show "map_of built k = Some JNull \<Longrightarrow> k \<in> set (custom_field_keys collected)"
  proof (rule ccontr)
    assume n: "map_of built k = Some JNull" and "k \<notin> set (custom_field_keys collected)"
    from keys(2) [OF this(2)] n have "map_of base k = Some JNull" by simp
    from base [OF this] show False by simp
  qed
qed

lemma check_parent_result:
  assumes "check_parent parentIssueKey subtaskIssues issueTypeId built = Inr checked"
  shows "checked = built
         \<or> truthy parentIssueKey
           \<and> (\<exists>key. checked = AList.update ''parent'' (JObject [(''key'', key)]) built)"
  using assms
  by (auto simp: check_parent_def bindE_def split: if_splits sum.splits)

lemma issue_update_put:
  assumes "c \<in> set (drop (length (calls s)) (calls (snd (issue_update ctx version i s))))"
    and "http_method c = ''PUT''"
  shows "\<exists>built subtaskIssues checked.
           issue_update_fields version (updateFields (getNodeParameter ctx i)) = Inr built
           \<and> check_parent (get (updateFields (getNodeParameter ctx i)) ''parentIssueKey'')
                subtaskIssues (get (updateFields (getNodeParameter ctx i)) ''issueType'') built
               = Inr checked
           \<and> body c = JObject [(''fields'', JObject checked)]"
  using assms
  by (auto simp: issue_update_def Let_def run_simps bindX_assoc throw_def push_def return_def
      request_sel split: sum.splits option.splits if_splits)

text \<open>
  Claim C4. Every key of the \<open>fields\<close> object that an issue update sends in its PUT comes
  from the collected update fields: one of the fields that feed it is in the input map,
  with a truthy value, or the key is named by a collected custom field. No key carries
  an explicit null, unless a collected custom field supplies it.
\<close>

theorem update_sends_only_collected_fields:
  assumes "c \<in> set (drop (length (calls s)) (calls (snd (issue_update ctx version i s))))"
    and "http_method c = ''PUT''"
  shows "\<exists>sent. body c = JObject [(''fields'', JObject sent)]
           \<and> (\<forall>k \<in> fst ` set sent.
                 (\<exists>src \<in> set (field_sources k).
                    src \<in> fst ` set (updateFields (getNodeParameter ctx i))
                    \<and> truthy (get (updateFields (getNodeParameter ctx i)) src))
                 \<or> k \<in> set (custom_field_keys (updateFields (getNodeParameter ctx i))))
           \<and> (\<forall>k. map_of sent k = Some JNull
                 \<longrightarrow> k \<in> set (custom_field_keys (updateFields (getNodeParameter ctx i))))"
proof -
  let ?collected = "updateFields (getNodeParameter ctx i)"
  from issue_update_put [OF assms] obtain built subtaskIssues checked where
    built: "issue_update_fields version ?collected = Inr built"
    and checked: "check_parent (get ?collected ''parentIssueKey'') subtaskIssues
                    (get ?collected ''issueType'') built = Inr checked"
    and body: "body c = JObject [(''fields'', JObject checked)]"
    by blast
  note sparse = issue_update_fields_sparse [OF built]
  have keys: "(\<exists>src \<in> set (field_sources k). src \<in> fst ` set ?collected
                  \<and> truthy (get ?collected src))
              \<or> k \<in> set (custom_field_keys ?collected)"
    if k: "k \<in> fst ` set checked" for k
  proof -
    have "fst ` set checked = fst ` set built
          \<or> truthy (get ?collected ''parentIssueKey'')
            \<and> fst ` set checked = insert ''parent'' (fst ` set built)"
    proof -
      from check_parent_result [OF checked]
      consider "checked = built"
        | key where "truthy (get ?collected ''parentIssueKey'')"
            "checked = AList.update ''parent'' (JObject [(''key'', key)]) built"
        by blast
      then show ?thesis
      proof cases
        case 1
        then show ?thesis by simp
      next
        case 2
        have "fst ` set (AList.update ''parent'' (JObject [(''key'', key)]) built)
                = insert ''parent'' (fst ` set built)"
          by (simp add: dom_update)
        with 2 show ?thesis by simp
      qed
    qed
    with k
    have "k \<in> fst ` set built \<or> (k = ''parent'' \<and> truthy (get ?collected ''parentIssueKey''))"
      by blast
    then show ?thesis
    proof
      assume "k \<in> fst ` set built"
      from sparse(1) [OF this] show ?thesis
        using truthy_present [of ?collected] by blast
    next
      assume p: "k = ''parent'' \<and> truthy (get ?collected ''parentIssueKey'')"
      then have "''parentIssueKey'' \<in> set (field_sources k)"
        by (simp add: field_sources_def)
      with p truthy_present [of ?collected "''parentIssueKey''"] show ?thesis
        by blast
    qed
  qed
  have nulls: "k \<in> set (custom_field_keys ?collected)" if n: "map_of checked k = Some JNull" for k
  proof -
    from check_parent_result [OF checked] n have "map_of built k = Some JNull"
      by (auto simp: update_conv' split: if_splits)
    from sparse(2) [OF this] show ?thesis .
  qed
  from body keys nulls show ?thesis
    by blast
qed

lemma sparse_update_run:
  "calls (snd (issue_update (invocation [sparse_update] jira) ''cloud'' 0 initial_state))
   = [request ''/api/2/issuetype'' ''GET'' (JObject []) JUndefined,
      request ''/api/2/issue/PROJ-1'' ''PUT''
        (JObject [(''fields'', JObject [(''summary'', JString ''New title''),
           (''issuetype'', JObject [(''id'', JString ''10002'')]),
           (''customfield_10010'', JNum 3),
           (''parent'', JObject [(''key'', JString ''PROJ-7'')])])]) JUndefined]"
  by code_simp

theorem update_sends_only_collected_fields_witness:
  "request ''/api/2/issue/PROJ-1'' ''PUT''
        (JObject [(''fields'', JObject [(''summary'', JString ''New title''),
           (''issuetype'', JObject [(''id'', JString ''10002'')]),
           (''customfield_10010'', JNum 3),
           (''parent'', JObject [(''key'', JString ''PROJ-7'')])])]) JUndefined
     \<in> set (drop (length (calls initial_state))
           (calls (snd (issue_update (invocation [sparse_update] jira) ''cloud'' 0
              initial_state))))
   \<and> (\<exists>sent.
         JObject [(''fields'', JObject [(''summary'', JString ''New title''),
           (''issuetype'', JObject [(''id'', JString ''10002'')]),
           (''customfield_10010'', JNum 3),
           (''parent'', JObject [(''key'', JString ''PROJ-7'')])])]
           = JObject [(''fields'', JObject sent)]
       \<and> (\<forall>k \<in> fst ` set sent.
             (\<exists>src \<in> set (field_sources k).
                src \<in> fst ` set (updateFields
                        (getNodeParameter (invocation [sparse_update] jira) 0))
                \<and> truthy (get (updateFields
                        (getNodeParameter (invocation [sparse_update] jira) 0)) src))
             \<or> k \<in> set (custom_field_keys (updateFields
                        (getNodeParameter (invocation [sparse_update] jira) 0))))
       \<and> (\<forall>k. map_of sent k = Some JNull
             \<longrightarrow> k \<in> set (custom_field_keys (updateFields
                        (getNodeParameter (invocation [sparse_update] jira) 0)))))"
proof -
  let ?put = "request ''/api/2/issue/PROJ-1'' ''PUT''
        (JObject [(''fields'', JObject [(''summary'', JString ''New title''),
           (''issuetype'', JObject [(''id'', JString ''10002'')]),
           (''customfield_10010'', JNum 3),
           (''parent'', JObject [(''key'', JString ''PROJ-7'')])])]) JUndefined"
  have m: "?put \<in> set (drop (length (calls initial_state))
           (calls (snd (issue_update (invocation [sparse_update] jira) ''cloud'' 0
              initial_state))))"
    unfolding sparse_update_run by (simp add: initial_state_def)
  have p: "http_method ?put = ''PUT''"
    by (simp add: request_sel)
  from update_sends_only_collected_fields [OF m p] m show ?thesis
    by (simp add: request_sel)
qed


end
